theory Spec2Isabelle
  imports Complex_Main "HOL-Library.Sublist"
begin

section \<open>JavaScript values used by \<^verbatim>\<open>main.js\<close>\<close>

text \<open>
  Strings are lists of 8-bit code units. A JavaScript Number is either NaN, an infinity,
  or a finite binary64 value, which is represented by the real number it denotes
  (comparison and \<^verbatim>\<open>toFixed\<close> are defined by ECMAScript on that exact value).
\<close>

datatype jsnum = Num real | PosInf | NegInf | NaN

text \<open>\<^verbatim>\<open>a < b\<close> on Numbers; a comparison with NaN is undefined, which counts as false.\<close>

fun js_lt :: "jsnum \<Rightarrow> jsnum \<Rightarrow> bool" where
  "js_lt NaN b = False"
| "js_lt a NaN = False"
| "js_lt (Num x) (Num y) = (x < y)"
| "js_lt PosInf b = False"
| "js_lt a NegInf = False"
| "js_lt a PosInf = True"
| "js_lt NegInf b = True"

text \<open>\<^verbatim>\<open>a >= b\<close>: false when \<^verbatim>\<open>a < b\<close> is true or undefined, true otherwise.\<close>

definition js_ge :: "jsnum \<Rightarrow> jsnum \<Rightarrow> bool" where
  "js_ge a b = (a \<noteq> NaN \<and> b \<noteq> NaN \<and> \<not> js_lt a b)"

definition js_gt :: "jsnum \<Rightarrow> jsnum \<Rightarrow> bool" where
  "js_gt a b = js_lt b a"

text \<open>
  \<^verbatim>\<open>a - b\<close>. The exact difference of two finite values is rounded to binary64 by
  \<open>rnd\<close>, the rounding function of the runtime.
\<close>

fun js_sub :: "(real \<Rightarrow> jsnum) \<Rightarrow> jsnum \<Rightarrow> jsnum \<Rightarrow> jsnum" where
  "js_sub rnd NaN b = NaN"
| "js_sub rnd a NaN = NaN"
| "js_sub rnd (Num x) (Num y) = rnd (x - y)"
| "js_sub rnd PosInf PosInf = NaN"
| "js_sub rnd NegInf NegInf = NaN"
| "js_sub rnd PosInf b = PosInf"
| "js_sub rnd NegInf b = NegInf"
| "js_sub rnd a PosInf = NegInf"
| "js_sub rnd a NegInf = PosInf"

definition digit_char :: "nat \<Rightarrow> char" where
  "digit_char d =
     (if d = 0 then CHR ''0'' else if d = 1 then CHR ''1'' else if d = 2 then CHR ''2''
      else if d = 3 then CHR ''3'' else if d = 4 then CHR ''4'' else if d = 5 then CHR ''5''
      else if d = 6 then CHR ''6'' else if d = 7 then CHR ''7'' else if d = 8 then CHR ''8''
      else CHR ''9'')"

text \<open>The decimal digits of a natural number, as template literals print integers.\<close>

fun show_nat :: "nat \<Rightarrow> string" where
  "show_nat n = (if n < 10 then [digit_char n] else show_nat (n div 10) @ [digit_char (n mod 10)])"

declare show_nat.simps [simp del]

text \<open>
  \<^verbatim>\<open>Number.prototype.toString\<close>: fixed for the non-finite values; for a finite value
  the shortest digit string that reads back as the same binary64 value, supplied by the
  runtime as \<open>fin\<close>.
\<close>

definition Number_toString :: "(real \<Rightarrow> string) \<Rightarrow> jsnum \<Rightarrow> string" where
  "Number_toString fin x =
     (case x of NaN \<Rightarrow> ''NaN'' | PosInf \<Rightarrow> ''Infinity'' | NegInf \<Rightarrow> ''-Infinity'' | Num r \<Rightarrow> fin r)"

text \<open>
  \<^verbatim>\<open>x.toFixed(2)\<close> (ECMA-262, Number.prototype.toFixed with fractionDigits 2): the
  integer \<open>n\<close> nearest to \<open>100 * |x|\<close>, the larger one on a tie, printed with at least
  three digits and a point before the last two.
\<close>

definition toFixed2 :: "(real \<Rightarrow> string) \<Rightarrow> jsnum \<Rightarrow> string" where
  "toFixed2 fin x =
     (case x of
        Num r \<Rightarrow>
          (let s = (if r < 0 then ''-'' else '''');
               a = \<bar>r\<bar>
           in if a \<ge> 10 ^ 21 then s @ Number_toString fin (Num a)
              else
                (let n = nat \<lfloor>a * 100 + 1 / 2\<rfloor>;
                     m = show_nat n;
                     m' = (if length m \<le> 2 then replicate (3 - length m) (CHR ''0'') @ m else m)
                 in s @ take (length m' - 2) m' @ ''.'' @ drop (length m' - 2) m'))
      | _ \<Rightarrow> Number_toString fin x)"

text \<open>White space and line terminators of ECMAScript that fit in one code unit.\<close>

definition js_whitespace :: "char \<Rightarrow> bool" where
  "js_whitespace c =
     (c = CHR 0x09 \<or> c = CHR 0x0A \<or> c = CHR 0x0B \<or> c = CHR 0x0C \<or> c = CHR 0x0D \<or>
      c = CHR 0x20 \<or> c = CHR 0xA0)"

text \<open>\<^verbatim>\<open>String.prototype.trim\<close>.\<close>

definition js_trim :: "string \<Rightarrow> string" where
  "js_trim s = rev (dropWhile js_whitespace (rev (dropWhile js_whitespace s)))"

text \<open>\<^verbatim>\<open>s.split(/\r?\n/)\<close>: cut at every line feed, dropping a carriage return before it.\<close>

fun split_lines :: "string \<Rightarrow> string list" where
  "split_lines [] = [[]]"
| "split_lines (c # cs) =
     (if c = CHR 0x0A then [] # split_lines cs
      else if c = CHR 0x0D \<and> cs \<noteq> [] \<and> hd cs = CHR 0x0A then [] # split_lines (tl cs)
      else (case split_lines cs of l # ls \<Rightarrow> (c # l) # ls | [] \<Rightarrow> [[c]]))"

text \<open>\<^verbatim>\<open>lines.join(sep)\<close>.\<close>

fun js_join :: "string \<Rightarrow> string list \<Rightarrow> string" where
  "js_join sep [] = []"
| "js_join sep [l] = l"
| "js_join sep (l # l' # ls) = l @ sep @ js_join sep (l' # ls)"

text \<open>\<^verbatim>\<open>line.startsWith(p)\<close> and \<^verbatim>\<open>body.includes(p)\<close>.\<close>

definition js_startsWith :: "string \<Rightarrow> string \<Rightarrow> bool" where
  "js_startsWith line p = prefix p line"

fun js_includes :: "string \<Rightarrow> string \<Rightarrow> bool" where
  "js_includes [] p = (p = [])"
| "js_includes (c # cs) p = (prefix p (c # cs) \<or> js_includes cs p)"

section \<open>The environment of one run\<close>

record pull_request =
  pr_number :: nat
  pr_head_sha :: string
  pr_base_ref :: string

text \<open>\<^verbatim>\<open>github.context\<close>; the payload has a pull request only on pull-request events.\<close>

record github_context =
  ctx_action :: string
  ctx_eventName :: string
  ctx_pull_request :: "pull_request option"
  ctx_owner :: string
  ctx_repo :: string
  ctx_workflow :: string
  ctx_runNumber :: nat
  ctx_runId :: nat

text \<open>One entry of the host's workflow-run listing.\<close>

record workflow_run =
  run_id :: nat
  run_head_branch :: string
  run_head_sha :: string
  run_conclusion :: string

record comment =
  c_id :: nat
  c_body :: string

text \<open>
  Everything the action does to the outside, in the order it happens: log lines, outputs,
  and every call of a tool, of the host's REST interface, of the artifact client and of
  the file system.
\<close>

datatype event =
    Info string
  | Warning string
  | Debug string
  | ConsoleLog string
  | SetOutput string jsnum
  | SetFailed string
  | Glob string
  | Exec string "string list" "string option"
  | LcovTotal "string option"
  | GetOctokit string
  | ListComments nat
  | CreateComment nat string
  | UpdateComment nat string
  | ListFiles nat
  | ListWorkflowRunsForRepo string nat
  | GetArtifact string nat
  | DownloadArtifact nat nat string
  | UploadArtifact string "string list" string
  | Readdir string

text \<open>
  The world answers every external call. \<open>fails\<close> tells which calls throw, and with
  which message; the other fields give what a call returns when it does not throw. An
  answer depends on the call and its arguments only, so a call repeated within a run is
  answered the same way. \<open>inputs\<close> is what \<^verbatim>\<open>core.getInput\<close> returns (the empty string for
  an input that is not set); \<open>toNumber\<close>, \<open>float_round\<close> and \<open>finite_toString\<close> are the
  parts of the JavaScript runtime that depend on the binary64 grid: \<^verbatim>\<open>ToNumber\<close> of a
  string, rounding, and the digits of a finite Number. \<open>workflow_runs\<close> is the host's run
  listing, newest first, and \<open>page_size\<close> the size of a page of comments when the request
  names none (30 on the host).
\<close>

record world =
  inputs :: "string \<Rightarrow> string"
  ctx :: github_context
  tmpdir :: string
  path_resolve :: "string \<Rightarrow> string \<Rightarrow> string"
  path_join :: "string \<Rightarrow> string \<Rightarrow> string"
  path_dirname :: "string \<Rightarrow> string"
  toNumber :: "string \<Rightarrow> jsnum"
  float_round :: "real \<Rightarrow> jsnum"
  finite_toString :: "real \<Rightarrow> string"
  fails :: "event \<Rightarrow> string option"
  glob_result :: "string \<Rightarrow> string list"
  exec_output :: "string \<Rightarrow> string list \<Rightarrow> string"
  lcov_total :: "string \<Rightarrow> jsnum"
  changed_files :: "nat \<Rightarrow> string list"
  workflow_runs :: "workflow_run list"
  artifact_of :: "string \<Rightarrow> nat \<Rightarrow> nat option"
  dir_files :: "string \<Rightarrow> string list"
  page_size :: nat

text \<open>The state of a run: what has happened so far, and the comments of the pull request.\<close>

record state =
  trace :: "event list"
  comments :: "comment list"

section \<open>Computations that may throw\<close>

type_synonym 'a io = "state \<Rightarrow> (string + 'a) \<times> state"

definition ret :: "'a \<Rightarrow> 'a io" where
  "ret x s = (Inr x, s)"

definition throw :: "string \<Rightarrow> 'a io" where
  "throw msg s = (Inl msg, s)"

definition bindE :: "'a io \<Rightarrow> ('a \<Rightarrow> 'b io) \<Rightarrow> 'b io" where
  "bindE m f s = (case m s of (Inl msg, s') \<Rightarrow> (Inl msg, s') | (Inr x, s') \<Rightarrow> f x s')"

definition emit :: "event \<Rightarrow> unit io" where
  "emit e s = (Inr (), s\<lparr>trace := trace s @ [e]\<rparr>)"

definition emit_all :: "event list \<Rightarrow> unit io" where
  "emit_all es s = (Inr (), s\<lparr>trace := trace s @ es\<rparr>)"

text \<open>An external call: recorded, then it throws or returns the world's answer.\<close>

definition call :: "world \<Rightarrow> event \<Rightarrow> 'a \<Rightarrow> 'a io" where
  "call w e result s =
     (case fails w e of
        Some msg \<Rightarrow> (Inl msg, s\<lparr>trace := trace s @ [e]\<rparr>)
      | None \<Rightarrow> (Inr result, s\<lparr>trace := trace s @ [e]\<rparr>))"

definition info :: "string \<Rightarrow> unit io" where
  "info msg = emit (Info msg)"

definition warning :: "string \<Rightarrow> unit io" where
  "warning msg = emit (Warning msg)"

definition debug :: "string \<Rightarrow> unit io" where
  "debug msg = emit (Debug msg)"

definition setOutput :: "string \<Rightarrow> jsnum \<Rightarrow> unit io" where
  "setOutput name v = emit (SetOutput name v)"

definition setFailed :: "string \<Rightarrow> unit io" where
  "setFailed msg = emit (SetFailed msg)"

definition getInput :: "world \<Rightarrow> string \<Rightarrow> string" where
  "getInput w name = inputs w name"

definition glob :: "world \<Rightarrow> string \<Rightarrow> string list io" where
  "glob w pattern = call w (Glob pattern) (glob_result w pattern)"

text \<open>\<^verbatim>\<open>exec.exec\<close>; it returns what the listeners collected from stdout and stderr.\<close>

definition exec :: "world \<Rightarrow> string \<Rightarrow> string list \<Rightarrow> string option \<Rightarrow> string io" where
  "exec w tool args cwd = call w (Exec tool args cwd) (exec_output w tool args)"

text \<open>\<^verbatim>\<open>lcovTotal(file)\<close> reads the file; an undefined path is node's type error.\<close>

definition lcovTotal :: "world \<Rightarrow> string option \<Rightarrow> jsnum io" where
  \<open>lcovTotal w file =
     (case file of
        None \<Rightarrow> bindE (emit (LcovTotal None))
                 (\<lambda>_. throw ''The "path" argument must be of type string or an instance of Buffer or URL. Received undefined'')
      | Some f \<Rightarrow> call w (LcovTotal (Some f)) (lcov_total w f))\<close>

definition uploadArtifact :: "world \<Rightarrow> string \<Rightarrow> string list \<Rightarrow> string \<Rightarrow> unit io" where
  "uploadArtifact w name files rootDirectory = call w (UploadArtifact name files rootDirectory) ()"

text \<open>Reading a field of \<^verbatim>\<open>github.context.payload.pull_request\<close>.\<close>

definition the_pull_request :: "world \<Rightarrow> string \<Rightarrow> pull_request io" where
  \<open>the_pull_request w field =
     (case ctx_pull_request (ctx w) of
        None \<Rightarrow> throw (''Cannot read properties of undefined (reading '' @ [CHR 0x27] @ field @ [CHR 0x27] @ '')'')
      | Some pr \<Rightarrow> ret pr)\<close>

section \<open>Report renderer and changed-file filter\<close>

definition summarize :: "world \<Rightarrow> string \<Rightarrow> string io" where
  "summarize w coverageFile =
     bindE (exec w ''lcov'' [''--summary'', coverageFile, ''--rc'', ''lcov_branch_coverage=1''] None)
       (\<lambda>output.
          let lines = split_lines (js_trim output);
              lines = tl lines
          in ret (js_join [CHR 0x0A] lines))"

text \<open>
  The inner loop of the filter of \<^verbatim>\<open>detail\<close>: the changed files are tried in order,
  each comparison is printed, and the first prefix match keeps the line.
\<close>

fun lineMatches :: "string \<Rightarrow> string list \<Rightarrow> bool \<times> event list" where
  "lineMatches line [] = (False, [])"
| "lineMatches line (changedFile # rest) =
     (if js_startsWith line changedFile
      then (True, [ConsoleLog (line @ '' === '' @ changedFile)])
      else (case lineMatches line rest of
              (keep, printed) \<Rightarrow> (keep, ConsoleLog (line @ '' === '' @ changedFile) # printed)))"

text \<open>\<^verbatim>\<open>lines.filter((line, index) => ...)\<close>, with \<open>index\<close> the position of the head.\<close>

fun filterLines :: "nat \<Rightarrow> string list \<Rightarrow> string list \<Rightarrow> string list \<times> event list" where
  "filterLines index [] changedFiles = ([], [])"
| "filterLines index (line # lines) changedFiles =
     (case (if index \<le> 2 then (True, []) else lineMatches line changedFiles) of
        (keep, printed) \<Rightarrow>
          (case filterLines (Suc index) lines changedFiles of
             (kept, printed') \<Rightarrow> ((if keep then line # kept else kept), printed @ printed')))"

text \<open>The end of \<^verbatim>\<open>detail\<close>: the sentinel when only the header is left.\<close>

definition detailText :: "string list \<Rightarrow> string" where
  "detailText lines =
     (if length lines = 3 then '' n/a''
      else [CHR 0x0A] @ ''  '' @ js_join ([CHR 0x0A] @ ''  '') lines)"

definition listFiles :: "world \<Rightarrow> nat \<Rightarrow> string list io" where
  "listFiles w pull_number = call w (ListFiles pull_number) (changed_files w pull_number)"

definition detail :: "world \<Rightarrow> string \<Rightarrow> string io" where
  "detail w coverageFile =
     bindE (exec w ''lcov''
              [''--list'', coverageFile, ''--list-full-path'', ''--rc'', ''lcov_branch_coverage=1''] None)
       (\<lambda>output.
          let lines = split_lines (js_trim output);
              lines = tl lines;
              lines = butlast lines;
              lines = butlast lines
          in bindE (the_pull_request w ''number'') (\<lambda>pr.
             bindE (listFiles w (pr_number pr)) (\<lambda>changedFiles.
               case filterLines 0 lines changedFiles of
                 (lines, printed) \<Rightarrow> bindE (emit_all printed) (\<lambda>_. ret (detailText lines)))))"

section \<open>Comment reconciler\<close>

text \<open>
  The host's side of the comment calls. A new comment goes to the end of the thread with
  an identifier that no comment of the thread has; an update replaces the body of the
  comment with the given identifier. \<^verbatim>\<open>listComments\<close> is a single request, so it
  answers with the first page of the thread, \<open>page_size\<close> comments at most.
\<close>

definition fresh_id :: "comment list \<Rightarrow> nat" where
  "fresh_id cs = Suc (fold max (map c_id cs) 0)"

definition host_createComment :: "string \<Rightarrow> unit io" where
  "host_createComment body s =
     (Inr (), s\<lparr>comments := comments s @ [\<lparr>c_id = fresh_id (comments s), c_body = body\<rparr>]\<rparr>)"

definition host_updateComment :: "nat \<Rightarrow> string \<Rightarrow> unit io" where
  "host_updateComment cid body s =
     (Inr (), s\<lparr>comments := map (\<lambda>c. if c_id c = cid then c\<lparr>c_body := body\<rparr> else c) (comments s)\<rparr>)"

definition listComments :: "world \<Rightarrow> nat \<Rightarrow> comment list io" where
  "listComments w issue_number s =
     call w (ListComments issue_number) (take (page_size w) (comments s)) s"

definition createComment :: "world \<Rightarrow> string \<Rightarrow> unit io" where
  "createComment w body =
     bindE (debug ''Creating a comment in the PR.'') (\<lambda>_.
     bindE (the_pull_request w ''number'') (\<lambda>pr.
     bindE (call w (CreateComment (pr_number pr) body) ()) (\<lambda>_.
     host_createComment body)))"

definition upsertComment :: "world \<Rightarrow> string \<Rightarrow> string \<Rightarrow> unit io" where
  "upsertComment w body commentHeaderPrefix =
     bindE (the_pull_request w ''number'') (\<lambda>pr.
     bindE (listComments w (pr_number pr)) (\<lambda>issueComments.
       case find (\<lambda>comment. js_includes (c_body comment) commentHeaderPrefix) issueComments of
         Some existingComment \<Rightarrow>
           bindE (debug (''Updating comment, id: '' @ show_nat (c_id existingComment) @ ''.'')) (\<lambda>_.
           bindE (call w (UpdateComment (c_id existingComment) body) ()) (\<lambda>_.
           host_updateComment (c_id existingComment) body))
       | None \<Rightarrow>
           bindE (debug ''Comment does not exist, a new comment will be created.'') (\<lambda>_.
           createComment w body)))"

section \<open>Artifact locator and baseline coverage resolver\<close>

record findBy =
  fb_token :: string
  fb_workflowRunId :: nat
  fb_repositoryOwner :: string
  fb_repositoryName :: string

text \<open>What \<^verbatim>\<open>downloadTargetBranchCoverage\<close> returns when it finds a baseline.\<close>

record baseline =
  b_path :: "string option"
  b_runId :: nat
  b_targetBranchSha :: string

text \<open>What \<^verbatim>\<open>calculatePreviousCoverage\<close> returns when it is not null.\<close>

record previous =
  p_coverage :: jsnum
  p_path :: "string option"
  p_runId :: nat
  p_targetBranchSha :: string

text \<open>
  The host's workflow-run listing, newest first: the runs of the branch asked for, cut
  to \<open>per_page\<close> entries. The request carries no other filter.
\<close>

definition listWorkflowRunsForRepo :: "world \<Rightarrow> string \<Rightarrow> nat \<Rightarrow> workflow_run list io" where
  "listWorkflowRunsForRepo w branch per_page =
     call w (ListWorkflowRunsForRepo branch per_page)
       (take per_page (filter (\<lambda>r. run_head_branch r = branch) (workflow_runs w)))"

definition getArtifact :: "world \<Rightarrow> string \<Rightarrow> findBy \<Rightarrow> nat option io" where
  "getArtifact w artifactName fb =
     call w (GetArtifact artifactName (fb_workflowRunId fb))
       (artifact_of w artifactName (fb_workflowRunId fb))"

definition downloadArtifact :: "world \<Rightarrow> nat \<Rightarrow> findBy \<Rightarrow> string \<Rightarrow> unit io" where
  "downloadArtifact w artifactId fb path =
     call w (DownloadArtifact artifactId (fb_workflowRunId fb) path) ()"

definition readdirSync :: "world \<Rightarrow> string \<Rightarrow> string list io" where
  "readdirSync w dir = call w (Readdir dir) (dir_files w dir)"

definition downloadSingleFileArtifact :: "world \<Rightarrow> string \<Rightarrow> findBy \<Rightarrow> string \<Rightarrow> string option io" where
  \<open>downloadSingleFileArtifact w artifactName fb downloadDir =
     bindE (getArtifact w artifactName fb) (\<lambda>artifactInfo.
       case artifactInfo of
         None \<Rightarrow>
           bindE (warning (''No artifact found for "'' @ artifactName @ ''".'')) (\<lambda>_. ret None)
       | Some artifactId \<Rightarrow>
           bindE (downloadArtifact w artifactId fb downloadDir) (\<lambda>_.
           bindE (info (''Artifact "'' @ artifactName @ ''" downloaded to '' @ downloadDir @ ''.'')) (\<lambda>_.
           bindE (readdirSync w downloadDir) (\<lambda>files.
             if length files \<noteq> 1
             then throw (''Expected a single file, but found '' @ show_nat (length files)
                          @ '' files in '' @ downloadDir @ ''.'')
             else ret (Some (path_join w downloadDir (files ! 0)))))))\<close>

definition downloadTargetBranchCoverage :: "world \<Rightarrow> string \<Rightarrow> string \<Rightarrow> string \<Rightarrow> baseline option io" where
  \<open>downloadTargetBranchCoverage w artifactName gitHubToken tmpPath =
     (case ctx_pull_request (ctx w) of
        None \<Rightarrow>
          bindE (warning ''Not a pull request event. Skipping target branch coverage download.'')
            (\<lambda>_. ret None)
      | Some pr \<Rightarrow>
          (let targetBranch = pr_base_ref pr in
           bindE (info (''Searching for a successful workflow run on target branch: '' @ targetBranch)) (\<lambda>_.
           bindE (listWorkflowRunsForRepo w targetBranch 1) (\<lambda>workflow_runs.
             case workflow_runs of
               [] \<Rightarrow>
                 bindE (warning (''No successful workflow runs found on branch "'' @ targetBranch @ ''".''))
                   (\<lambda>_. ret None)
             | run0 # _ \<Rightarrow>
                 (let workflowRunId = run_id run0;
                      fb = \<lparr>fb_token = gitHubToken, fb_workflowRunId = workflowRunId,
                            fb_repositoryOwner = ctx_owner (ctx w), fb_repositoryName = ctx_repo (ctx w)\<rparr>
                  in
                  bindE (info (''Found run id '' @ show_nat workflowRunId @ '' on branch '' @ targetBranch @ ''.'')) (\<lambda>_.
                  bindE (getArtifact w artifactName fb) (\<lambda>artifactInfo.
                    case artifactInfo of
                      None \<Rightarrow>
                        bindE (warning (''No artifact found for "'' @ artifactName @ ''".'')) (\<lambda>_. ret None)
                    | Some _ \<Rightarrow>
                        bindE (downloadSingleFileArtifact w artifactName fb
                                 (tmpPath @ ''/'' @ show_nat workflowRunId @ ''-'' @ artifactName @ ''-lcov.info''))
                          (\<lambda>path.
                        bindE (info (''Artifact "'' @ artifactName @ ''" downloaded to ''
                                      @ (case path of None \<Rightarrow> ''undefined'' | Some p \<Rightarrow> p) @ ''.'')) (\<lambda>_.
                        ret (Some \<lparr>b_path = path, b_runId = workflowRunId,
                                   b_targetBranchSha = run_head_sha run0\<rparr>))))))))))\<close>

text \<open>
  The test \<^verbatim>\<open>if (!path)\<close> inside the \<^verbatim>\<open>try\<close> reads the \<^verbatim>\<open>path\<close> module, which
  is always truthy, so it never returns. \<^verbatim>\<open>lcovTotal(coverage.path)\<close> is evaluated
  after the \<^verbatim>\<open>try\<close> statement.
\<close>

definition calculatePreviousCoverage :: "world \<Rightarrow> string \<Rightarrow> string \<Rightarrow> string \<Rightarrow> previous option io" where
  "calculatePreviousCoverage w artifactName gitHubToken tmpPath s =
     (case downloadTargetBranchCoverage w artifactName gitHubToken tmpPath s of
        (Inl message, s') \<Rightarrow>
          bindE (warning (''Error loading previous coverage: '' @ message)) (\<lambda>_. ret None) s'
      | (Inr coverage, s') \<Rightarrow>
          (case coverage of
             None \<Rightarrow> ret None s'
           | Some c \<Rightarrow>
               bindE (lcovTotal w (b_path c)) (\<lambda>total.
               ret (Some \<lparr>p_coverage = total, p_path = b_path c, p_runId = b_runId c,
                          p_targetBranchSha = b_targetBranchSha c\<rparr>)) s'))"

section \<open>HTML report and trace merger\<close>

definition genhtml :: "world \<Rightarrow> string list \<Rightarrow> string \<Rightarrow> unit io" where
  "genhtml w coverageFiles tmpPath =
     (let workingDirectory =
            (if js_trim (getInput w ''working-directory'') \<noteq> [] then js_trim (getInput w ''working-directory'')
             else ''./'');
          artifactName = js_trim (getInput w ''artifact-name'');
          artifactPath = js_trim (path_resolve w tmpPath ''html'');
          args = coverageFiles @ [''--rc'', ''lcov_branch_coverage=1''];
          args = args @ [''--output-directory''];
          args = args @ [artifactPath]
      in
      bindE (exec w ''genhtml'' args (Some workingDirectory)) (\<lambda>_.
        if artifactName \<noteq> [] then
          bindE (glob w (artifactPath @ ''/**/**.*'')) (\<lambda>htmlFiles.
          bindE (info ''Uploading artifacts.'') (\<lambda>_.
          uploadArtifact w artifactName htmlFiles artifactPath))
        else info ''Skip uploading artifacts''))"

definition mergeCoverages :: "world \<Rightarrow> string list \<Rightarrow> string \<Rightarrow> string io" where
  "mergeCoverages w coverageFiles tmpPath =
     (let mergedCoverageFile = tmpPath @ ''/lcov.info'';
          args = concat (map (\<lambda>coverageFile. [''--add-tracefile'', coverageFile]) coverageFiles);
          args = args @ [''--output-file''];
          args = args @ [mergedCoverageFile]
      in
      bindE (exec w ''lcov'' (args @ [''--rc'', ''lcov_branch_coverage=1'']) None) (\<lambda>_.
      ret mergedCoverageFile))"

section \<open>Pipeline coordinator\<close>

definition events :: "string list" where
  "events = [''pull_request'', ''pull_request_target'']"

text \<open>
  \<^verbatim>\<open>github.getOctokit(token)\<close> of \<^verbatim>\<open>@actions/github\<close>, called here without an
  \<^verbatim>\<open>auth\<close> option: the library throws on an empty token; on any other token the world
  answers.
\<close>

definition getOctokit :: "world \<Rightarrow> string \<Rightarrow> unit io" where
  "getOctokit w token =
     (if token = [] then
        bindE (emit (GetOctokit token)) (\<lambda>_. throw ''Parameter token or opts.auth is required'')
      else call w (GetOctokit token) ())"

definition errorMessage :: "world \<Rightarrow> jsnum \<Rightarrow> string \<Rightarrow> string" where
  "errorMessage w totalCoverage minimumCoverage =
     ''The code coverage is too low: '' @ Number_toString (finite_toString w) totalCoverage
       @ ''. Expected at least '' @ minimumCoverage @ ''.''"

definition commentHeaderPrefix :: "string \<Rightarrow> string" where
  "commentHeaderPrefix titlePrefix =
     ''### '' @ (if titlePrefix \<noteq> [] then titlePrefix @ '' '' else [])
       @ ''[LCOV](https://github.com/marketplace/actions/report-lcov) of commit''"

text \<open>Lines 46 to 55 of \<^verbatim>\<open>run\<close>: the diff line, or the absolute line without a baseline.\<close>

definition diffMessage :: "world \<Rightarrow> previous option \<Rightarrow> jsnum \<Rightarrow> string \<Rightarrow> string" where
  "diffMessage w previousCoverage totalCoverage sha =
     (case previousCoverage of
        Some p \<Rightarrow>
          (let compareUrl = ''https://github.com/'' @ ctx_owner (ctx w) @ ''/'' @ ctx_repo (ctx w)
                              @ ''/compare/'' @ p_targetBranchSha p @ ''...'' @ sha;
               diff = js_sub (float_round w) totalCoverage (p_coverage p);
               diffRounded = toFixed2 (finite_toString w) diff;
               sign = (if js_gt diff (Num 0) then ''+'' else [])
           in ''This pull request changes total coverage '' @ sign @ diffRounded @ ''% (''
                @ toFixed2 (finite_toString w) (p_coverage p) @ ''% -> ''
                @ toFixed2 (finite_toString w) totalCoverage @ ''%) for this [diff]('' @ compareUrl @ '')'')
      | None \<Rightarrow> ''Total coverage: '' @ toFixed2 (finite_toString w) totalCoverage @ ''%'')"

text \<open>Lines 56 to 60 of \<^verbatim>\<open>run\<close>: the comment body.\<close>

definition commentBody ::
  "world \<Rightarrow> pull_request \<Rightarrow> string \<Rightarrow> string \<Rightarrow> string \<Rightarrow> string \<Rightarrow> string \<Rightarrow> bool \<Rightarrow> string \<Rightarrow> string" where
  "commentBody w pr header diffMsg summary details additionalMessage isMinimumCoverageReached errMsg =
     (let sha = pr_head_sha pr;
          shaShort = take 7 sha;
          body = header @ '' [<code>'' @ shaShort @ ''</code>]('' @ show_nat (pr_number pr) @ ''/commits/'' @ sha
                   @ '') during ['' @ ctx_workflow (ctx w) @ '' #'' @ show_nat (ctx_runNumber (ctx w))
                   @ ''](../actions/runs/'' @ show_nat (ctx_runId (ctx w)) @ '')'' @ [CHR 0x0A]
                   @ diffMsg @ [CHR 0x0A] @ ''<pre>'' @ summary @ [CHR 0x0A, CHR 0x0A]
                   @ ''Files changed coverage rate:'' @ details @ ''</pre>''
                   @ (if additionalMessage \<noteq> [] then [CHR 0x0A] @ additionalMessage else [])
      in if \<not> isMinimumCoverageReached then body @ [CHR 0x0A] @ '':no_entry: '' @ errMsg else body)"

text \<open>Lines 39 to 62 of \<^verbatim>\<open>run\<close>: the branch taken with a token on a pull-request event.\<close>

definition reportComment ::
  "world \<Rightarrow> string \<Rightarrow> jsnum \<Rightarrow> string \<Rightarrow> string \<Rightarrow> string \<Rightarrow> string \<Rightarrow> string \<Rightarrow> bool \<Rightarrow> bool \<Rightarrow> string \<Rightarrow> unit io" where
  "reportComment w coverageFile totalCoverage coverageArtifactName gitHubToken tmpPath titlePrefix
       additionalMessage updateComment isMinimumCoverageReached errMsg =
     bindE (summarize w coverageFile) (\<lambda>summary.
     bindE (detail w coverageFile) (\<lambda>details.
     bindE (calculatePreviousCoverage w coverageArtifactName gitHubToken tmpPath) (\<lambda>previousCoverage.
     bindE (the_pull_request w ''head'') (\<lambda>pr.
       let header = commentHeaderPrefix titlePrefix;
           diffMsg = diffMessage w previousCoverage totalCoverage (pr_head_sha pr);
           body = commentBody w pr header diffMsg summary details additionalMessage
                    isMinimumCoverageReached errMsg
       in if updateComment then upsertComment w body header else createComment w body))))"

text \<open>
  Lines 16 to 82 of \<^verbatim>\<open>run\<close>: everything in the \<^verbatim>\<open>try\<close> block before the output is
  set. It hands on the three values the last two statements use.
\<close>

definition run_steps :: "world \<Rightarrow> (jsnum \<times> string \<times> bool) io" where
  "run_steps w =
     (let tmpPath = path_resolve w (tmpdir w) (ctx_action (ctx w));
          coverageFilesPattern = getInput w ''coverage-files''
      in
      bindE (glob w coverageFilesPattern) (\<lambda>coverageFiles.
        let titlePrefix = getInput w ''title-prefix'';
            additionalMessage = getInput w ''additional-message'';
            updateComment = (getInput w ''update-comment'' = ''true'');
            coverageArtifactName = getInput w ''coverage-artifact-name''
        in
        bindE (genhtml w coverageFiles tmpPath) (\<lambda>_.
        bindE (mergeCoverages w coverageFiles tmpPath) (\<lambda>coverageFile.
        bindE (lcovTotal w (Some coverageFile)) (\<lambda>totalCoverage.
          let gitHubToken = js_trim (getInput w ''github-token'');
              minimumCoverage = getInput w ''minimum-coverage'';
              errMsg = errorMessage w totalCoverage minimumCoverage;
              isMinimumCoverageReached = js_ge totalCoverage (toNumber w minimumCoverage);
              hasGithubToken = (gitHubToken \<noteq> []);
              isPR = (ctx_eventName (ctx w) \<in> set events)
          in
          bindE (getOctokit w gitHubToken) (\<lambda>_.
          bindE (if hasGithubToken \<and> isPR then
                   reportComment w coverageFile totalCoverage coverageArtifactName gitHubToken tmpPath
                     titlePrefix additionalMessage updateComment isMinimumCoverageReached errMsg
                 else if \<not> hasGithubToken then
                   bindE (info ''github-token received is empty. Skipping writing a comment in the PR.'') (\<lambda>_.
                   info ''Note: This could happen even if github-token was provided in workflow file. It could be because your github token does not have permissions for commenting in target repo.'')
                 else if \<not> isPR then
                   bindE (info ''The event is not a pull request. Skipping writing a comment.'') (\<lambda>_.
                   info (''The event type is: '' @ ctx_eventName (ctx w)))
                 else ret ()) (\<lambda>_.
          bindE (if hasGithubToken \<and> coverageArtifactName \<noteq> [] then
                   bindE (info ''Uploading coverage artifact to the workflow run.'') (\<lambda>_.
                   uploadArtifact w coverageArtifactName [coverageFile] (path_dirname w coverageFile))
                 else info ''Skipping coverage artifact upload.'') (\<lambda>_.
          ret (totalCoverage, errMsg, isMinimumCoverageReached)))))))))"

text \<open>The \<^verbatim>\<open>try\<close> block: the steps, then the output, then the gate.\<close>

definition run_try :: "world \<Rightarrow> unit io" where
  "run_try w =
     bindE (run_steps w) (\<lambda>(totalCoverage, errMsg, isMinimumCoverageReached).
     bindE (setOutput ''total-coverage'' totalCoverage) (\<lambda>_.
     if \<not> isMinimumCoverageReached then throw errMsg else ret ()))"

text \<open>\<^verbatim>\<open>run\<close>: whatever the \<^verbatim>\<open>try\<close> block throws marks the run failed.\<close>

definition run :: "world \<Rightarrow> state \<Rightarrow> state" where
  "run w s =
     (case run_try w s of
        (Inl message, s') \<Rightarrow> snd (setFailed message s')
      | (Inr _, s') \<Rightarrow> s')"

section \<open>Values of a run\<close>

text \<open>
  Names for the values \<^verbatim>\<open>run\<close> computes at its start: the temporary directory, the merged
  trace file, its aggregate coverage, the minimum as a Number, the message of the gate, and
  the two conditions of the comment branch.
\<close>

definition tmpPath :: "world \<Rightarrow> string" where
  "tmpPath w = path_resolve w (tmpdir w) (ctx_action (ctx w))"

definition mergedCoverageFile :: "world \<Rightarrow> string" where
  "mergedCoverageFile w = tmpPath w @ ''/lcov.info''"

definition aggregate :: "world \<Rightarrow> jsnum" where
  "aggregate w = lcov_total w (mergedCoverageFile w)"

definition minimum :: "world \<Rightarrow> jsnum" where
  "minimum w = toNumber w (getInput w ''minimum-coverage'')"

definition gateMessage :: "world \<Rightarrow> string" where
  "gateMessage w = errorMessage w (aggregate w) (getInput w ''minimum-coverage'')"

definition hasGithubToken :: "world \<Rightarrow> bool" where
  "hasGithubToken w = (js_trim (getInput w ''github-token'') \<noteq> [])"

definition isPR :: "world \<Rightarrow> bool" where
  "isPR w = (ctx_eventName (ctx w) \<in> set events)"

text \<open>The two calls that publish the comment, and the call that uploads the merged trace.\<close>

definition is_publish :: "event \<Rightarrow> bool" where
  "is_publish e = (case e of CreateComment _ _ \<Rightarrow> True | UpdateComment _ _ \<Rightarrow> True | _ \<Rightarrow> False)"

definition coverageUpload :: "world \<Rightarrow> event" where
  "coverageUpload w =
     UploadArtifact (getInput w ''coverage-artifact-name'') [mergedCoverageFile w]
       (path_dirname w (mergedCoverageFile w))"

text \<open>A run starts with nothing done yet, on a pull request with the comments \<open>cs\<close>.\<close>

definition start :: "comment list \<Rightarrow> state" where
  "start cs = \<lparr>trace = [], comments = cs\<rparr>"

text \<open>
  Two properties of a computation. \<open>attempts P m\<close>: whenever \<open>m\<close> returns, it has made a
  call that satisfies \<open>P\<close>. \<open>emits P m\<close>: whatever \<open>m\<close> does, it only adds events that
  satisfy \<open>P\<close> to the trace.
\<close>

definition attempts :: "(event \<Rightarrow> bool) \<Rightarrow> 'a io \<Rightarrow> bool" where
  "attempts P m = (\<forall>s x s'. m s = (Inr x, s') \<longrightarrow> (\<exists>es. trace s' = trace s @ es \<and> list_ex P es))"

definition emits :: "(event \<Rightarrow> bool) \<Rightarrow> 'a io \<Rightarrow> bool" where
  "emits P m = (\<forall>s. \<exists>es. trace (snd (m s)) = trace s @ es \<and> list_all P es)"

text \<open>
  An event is quiet when it is neither the output nor the failure mark; \<open>outcomes\<close> are
  the events of a trace that are not quiet.
\<close>

definition quiet :: "event \<Rightarrow> bool" where
  "quiet e = (case e of SetOutput _ _ \<Rightarrow> False | SetFailed _ \<Rightarrow> False | _ \<Rightarrow> True)"

definition outcomes :: "event list \<Rightarrow> event list" where
  "outcomes es = filter (\<lambda>e. \<not> quiet e) es"


definition lookupFound :: "(string + baseline option) \<Rightarrow> bool" where
  "lookupFound r = (case r of Inr (Some c) \<Rightarrow> True | _ \<Rightarrow> False)"


text \<open>The upload of the rendered report, as \<^verbatim>\<open>genhtml\<close> makes it.\<close>

definition htmlReportUpload :: "world \<Rightarrow> event" where
  "htmlReportUpload w =
     UploadArtifact (js_trim (getInput w ''artifact-name''))
       (glob_result w (js_trim (path_resolve w (tmpPath w) ''html'') @ ''/**/**.*''))
       (js_trim (path_resolve w (tmpPath w) ''html''))"

text \<open>
  The events a run without a token may produce: no comment call, no listing of changed
  files, no call of the baseline lookup, and no upload other than that of the rendered
  report.
\<close>

definition tokenless :: "world \<Rightarrow> event \<Rightarrow> bool" where
  "tokenless w e =
     (case e of
        ListComments _ \<Rightarrow> False
      | CreateComment _ _ \<Rightarrow> False
      | UpdateComment _ _ \<Rightarrow> False
      | ListFiles _ \<Rightarrow> False
      | ListWorkflowRunsForRepo _ _ \<Rightarrow> False
      | GetArtifact _ _ \<Rightarrow> False
      | DownloadArtifact _ _ _ \<Rightarrow> False
      | Readdir _ \<Rightarrow> False
      | UploadArtifact name files dir \<Rightarrow> UploadArtifact name files dir = htmlReportUpload w
      | _ \<Rightarrow> True)"

section \<open>Example runs\<close>

text \<open>
  A pull request on the branch \<^verbatim>\<open>main\<close>: one trace file, aggregate coverage 85, a
  minimum of 90, a token, update mode, and a baseline of 80 on the latest run of the target
  branch. The world answers the strings that occur in the examples; \<open>example_toNumber\<close>
  is \<^verbatim>\<open>ToNumber\<close> on the strings used here.
\<close>

definition example_ctx :: github_context where
  "example_ctx =
     \<lparr>ctx_action = ''report-lcov'', ctx_eventName = ''pull_request'',
      ctx_pull_request = Some \<lparr>pr_number = 7, pr_head_sha = ''0123456789abcdef'', pr_base_ref = ''main''\<rparr>,
      ctx_owner = ''octo'', ctx_repo = ''demo'', ctx_workflow = ''CI'', ctx_runNumber = 12,
      ctx_runId = 345\<rparr>"

definition example_inputs :: "string \<Rightarrow> string" where
  "example_inputs name =
     (if name = ''coverage-files'' then ''coverage/*.info''
      else if name = ''github-token'' then ''ghs_token''
      else if name = ''minimum-coverage'' then ''90''
      else if name = ''coverage-artifact-name'' then ''coverage''
      else if name = ''update-comment'' then ''true''
      else [])"

definition example_exec_output :: "string \<Rightarrow> string list \<Rightarrow> string" where
  \<open>example_exec_output tool args =
     (if tool = ''lcov'' \<and> take 1 args = [''--summary'']
      then ''Reading tracefile /tmp/report-lcov/lcov.info\<newline>Summary coverage rate:\<newline>  lines......: 85.0% (85 of 100 lines)\<newline>''
      else if tool = ''lcov'' \<and> take 1 args = [''--list'']
      then ''Reading tracefile /tmp/report-lcov/lcov.info\<newline>         |Lines\<newline>Filename |Rate  Num\<newline>==================\<newline>src/a.c  |90.0%  50\<newline>src/b.c  |80.0%  50\<newline>==================\<newline>   Total:|85.0% 100\<newline>''
      else [])\<close>

definition example_toNumber :: "string \<Rightarrow> jsnum" where
  "example_toNumber s =
     (if s = ''90'' then Num 90 else if s = ''80'' then Num 80 else if s = [] then Num 0 else NaN)"

definition example_world :: world where
  "example_world =
     \<lparr>inputs = example_inputs,
      ctx = example_ctx,
      tmpdir = ''/tmp'',
      path_resolve = (\<lambda>a b. a @ ''/'' @ b),
      path_join = (\<lambda>a b. a @ ''/'' @ b),
      path_dirname = (\<lambda>p. ''/tmp/report-lcov''),
      toNumber = example_toNumber,
      float_round = Num,
      finite_toString = (\<lambda>r. ''85''),
      fails = (\<lambda>e. None),
      glob_result = (\<lambda>pattern. if pattern = ''coverage/*.info'' then [''coverage/unit.info'']
                                  else [''/tmp/report-lcov/html/index.html'']),
      exec_output = example_exec_output,
      lcov_total = (\<lambda>file. if file = ''/tmp/report-lcov/lcov.info'' then Num 85 else Num 80),
      changed_files = (\<lambda>n. [''src/b.c'']),
      workflow_runs = [\<lparr>run_id = 41, run_head_branch = ''main'', run_head_sha = ''fedcba9876543210'',
                        run_conclusion = ''success''\<rparr>],
      artifact_of = (\<lambda>name r. Some 9),
      dir_files = (\<lambda>dir. [''lcov.info'']),
      page_size = 30\<rparr>"

text \<open>Variations of the example: another input, another event, a call that throws.\<close>

definition with_input :: "string \<Rightarrow> string \<Rightarrow> world \<Rightarrow> world" where
  "with_input name v w = w\<lparr>inputs := (\<lambda>n. if n = name then v else inputs w n)\<rparr>"

definition push_world :: world where
  "push_world = example_world\<lparr>ctx := example_ctx\<lparr>ctx_eventName := ''push'', ctx_pull_request := None\<rparr>\<rparr>"

definition passing_world :: world where
  "passing_world = with_input ''minimum-coverage'' ''80'' push_world"

definition upload_fails_world :: world where
  "upload_fails_world =
     push_world\<lparr>fails := (\<lambda>e. case e of UploadArtifact _ _ _ \<Rightarrow> Some ''Failed to CreateArtifact: ECONNRESET''
                                | _ \<Rightarrow> None)\<rparr>"

definition genhtml_fails_world :: world where
  "genhtml_fails_world =
     push_world\<lparr>fails := (\<lambda>e. case e of
                                  Exec tool _ _ \<Rightarrow> if tool = ''genhtml''
                                    then Some ''The process /usr/bin/genhtml failed with exit code 1'' else None
                                | _ \<Rightarrow> None)\<rparr>"

definition nan_world :: world where
  "nan_world = with_input ''minimum-coverage'' ''ninety'' push_world"

definition tokenless_world :: world where
  "tokenless_world = with_input ''github-token'' [] (with_input ''artifact-name'' ''html-report'' example_world)"

definition listing_fails_world :: world where
  "listing_fails_world =
     (with_input ''minimum-coverage'' ''80'' example_world)
       \<lparr>fails := (\<lambda>e. case e of ListWorkflowRunsForRepo _ _ \<Rightarrow> Some ''Bad credentials'' | _ \<Rightarrow> None)\<rparr>"

definition no_runs_world :: world where
  "no_runs_world = example_world\<lparr>workflow_runs := []\<rparr>"

definition two_files_world :: world where
  "two_files_world = example_world\<lparr>dir_files := (\<lambda>dir. [''lcov.info'', ''notes.txt''])\<rparr>"

definition failed_run_world :: world where
  "failed_run_world =
     example_world\<lparr>workflow_runs :=
       [\<lparr>run_id = 42, run_head_branch = ''main'', run_head_sha = ''badc0ffee0ddf00d'',
          run_conclusion = ''failure''\<rparr>,
        \<lparr>run_id = 41, run_head_branch = ''main'', run_head_sha = ''fedcba9876543210'',
          run_conclusion = ''success''\<rparr>]\<rparr>"

definition example_findBy :: findBy where
  "example_findBy = \<lparr>fb_token = ''ghs_token'', fb_workflowRunId = 41, fb_repositoryOwner = ''octo'',
                      fb_repositoryName = ''demo''\<rparr>"

definition thirty_comments :: "comment list" where
  "thirty_comments = map (\<lambda>i. \<lparr>c_id = i, c_body = ''LGTM''\<rparr>) [101..<131]"

definition octokit_fails_world :: world where
  "octokit_fails_world = with_input ''github-token'' [] push_world"

text \<open>What the example run publishes and does, up to the upload of the merged trace.\<close>

definition example_body :: string where
  \<open>example_body = ''### [LCOV](https://github.com/marketplace/actions/report-lcov) of commit [<code>0123456</code>](7/commits/0123456789abcdef) during [CI #12](../actions/runs/345)\<newline>This pull request changes total coverage +5.00% (80.00% -> 85.00%) for this [diff](https://github.com/octo/demo/compare/fedcba9876543210...0123456789abcdef)\<newline><pre>Summary coverage rate:\<newline>  lines......: 85.0% (85 of 100 lines)\<newline>\<newline>Files changed coverage rate:\<newline>           |Lines\<newline>  Filename |Rate  Num\<newline>  ==================\<newline>  src/b.c  |80.0%  50</pre>\<newline>:no_entry: The code coverage is too low: 85. Expected at least 90.''\<close>

definition example_steps_trace :: "event list" where
  \<open>example_steps_trace =
     [Glob ''coverage/*.info'',
      Exec ''genhtml'' [''coverage/unit.info'', ''--rc'', ''lcov_branch_coverage=1'', ''--output-directory'',
        ''/tmp/report-lcov/html''] (Some ''./''),
      Info ''Skip uploading artifacts'',
      Exec ''lcov'' [''--add-tracefile'', ''coverage/unit.info'', ''--output-file'',
        ''/tmp/report-lcov/lcov.info'', ''--rc'', ''lcov_branch_coverage=1''] None,
      LcovTotal (Some ''/tmp/report-lcov/lcov.info''),
      GetOctokit ''ghs_token'',
      Exec ''lcov'' [''--summary'', ''/tmp/report-lcov/lcov.info'', ''--rc'', ''lcov_branch_coverage=1''] None,
      Exec ''lcov'' [''--list'', ''/tmp/report-lcov/lcov.info'', ''--list-full-path'', ''--rc'',
        ''lcov_branch_coverage=1''] None,
      ListFiles 7,
      ConsoleLog ''src/a.c  |90.0%  50 === src/b.c'',
      ConsoleLog ''src/b.c  |80.0%  50 === src/b.c'',
      Info ''Searching for a successful workflow run on target branch: main'',
      ListWorkflowRunsForRepo ''main'' 1,
      Info ''Found run id 41 on branch main.'',
      GetArtifact ''coverage'' 41,
      GetArtifact ''coverage'' 41,
      DownloadArtifact 9 41 ''/tmp/report-lcov/41-coverage-lcov.info'',
      Info ''Artifact "coverage" downloaded to /tmp/report-lcov/41-coverage-lcov.info.'',
      Readdir ''/tmp/report-lcov/41-coverage-lcov.info'',
      Info ''Artifact "coverage" downloaded to /tmp/report-lcov/41-coverage-lcov.info/lcov.info.'',
      LcovTotal (Some ''/tmp/report-lcov/41-coverage-lcov.info/lcov.info''),
      ListComments 7,
      Debug ''Comment does not exist, a new comment will be created.'',
      Debug ''Creating a comment in the PR.'',
      CreateComment 7 example_body,
      Info ''Uploading coverage artifact to the workflow run.'',
      UploadArtifact ''coverage'' [''/tmp/report-lcov/lcov.info''] ''/tmp/report-lcov'']\<close>

definition push_steps_trace :: "event list" where
  "push_steps_trace =
     [Glob ''coverage/*.info'',
      Exec ''genhtml'' [''coverage/unit.info'', ''--rc'', ''lcov_branch_coverage=1'', ''--output-directory'',
        ''/tmp/report-lcov/html''] (Some ''./''),
      Info ''Skip uploading artifacts'',
      Exec ''lcov'' [''--add-tracefile'', ''coverage/unit.info'', ''--output-file'',
        ''/tmp/report-lcov/lcov.info'', ''--rc'', ''lcov_branch_coverage=1''] None,
      LcovTotal (Some ''/tmp/report-lcov/lcov.info''),
      GetOctokit ''ghs_token'',
      Info ''The event is not a pull request. Skipping writing a comment.'',
      Info ''The event type is: push'',
      Info ''Uploading coverage artifact to the workflow run.'',
      UploadArtifact ''coverage'' [''/tmp/report-lcov/lcov.info''] ''/tmp/report-lcov'']"

text \<open>Two bodies that carry the header marker.\<close>

definition first_body :: string where
  "first_body = commentHeaderPrefix [] @ '' first''"

definition second_body :: string where
  "second_body = commentHeaderPrefix [] @ '' second''"

section \<open>The changed-file filter\<close>

lemma lineMatches_fst: "fst (lineMatches line changedFiles) = (\<exists>p\<in>set changedFiles. js_startsWith line p)"
  by (induction changedFiles) (auto split: prod.splits)

lemma filterLines_rows:
  "2 < index \<Longrightarrow> fst (filterLines index rows changedFiles)
     = filter (\<lambda>row. \<exists>p\<in>set changedFiles. js_startsWith row p) rows"
proof (induction rows arbitrary: index)
  case Nil
  then show ?case by simp
next
  case (Cons row rows)
  have "fst (filterLines (Suc index) rows changedFiles)
     = filter (\<lambda>row. \<exists>p\<in>set changedFiles. js_startsWith row p) rows"
    using Cons by simp
  moreover have "\<not> index \<le> 2" using Cons.prems by simp
  ultimately show ?case
    using lineMatches_fst [of row changedFiles]
    by (auto split: prod.splits)
qed

lemma filterLines_header:
  "fst (filterLines 0 (h1 # h2 # h3 # rows) changedFiles)
     = h1 # h2 # h3 # filter (\<lambda>row. \<exists>p\<in>set changedFiles. js_startsWith row p) rows"
proof -
  have "fst (filterLines 3 rows changedFiles)
     = filter (\<lambda>row. \<exists>p\<in>set changedFiles. js_startsWith row p) rows"
    by (rule filterLines_rows) simp
  then show ?thesis
    by (auto simp: numeral_3_eq_3 numeral_2_eq_2 split: prod.splits)
qed

text \<open>
  Claim C4. For a listing with three header lines followed by data rows, the filter of
  \<^verbatim>\<open>detail\<close> keeps the three header lines, keeps of the rows exactly those that start
  with one of the changed files, in their original order, and the text returned is the
  sentinel \<^verbatim>\<open> n/a\<close> exactly when no row is kept; with no changed file it is the
  sentinel.
\<close>

theorem detail_filter:
  "fst (filterLines 0 (h1 # h2 # h3 # rows) changedFiles)
     = h1 # h2 # h3 # filter (\<lambda>row. \<exists>p\<in>set changedFiles. js_startsWith row p) rows
   \<and> detailText (fst (filterLines 0 (h1 # h2 # h3 # rows) changedFiles))
     = (if filter (\<lambda>row. \<exists>p\<in>set changedFiles. js_startsWith row p) rows = [] then '' n/a''
        else [CHR 0x0A] @ ''  '' @ js_join ([CHR 0x0A] @ ''  '')
               (h1 # h2 # h3 # filter (\<lambda>row. \<exists>p\<in>set changedFiles. js_startsWith row p) rows))
   \<and> detailText (fst (filterLines 0 (h1 # h2 # h3 # rows) [])) = '' n/a''"
  unfolding filterLines_header by (simp add: detailText_def)

theorem detail_filter_witness:
  "fst (filterLines 0 [''H1'', ''H2'', ''H3'', ''src/a.c |90%'', ''src/b.c |50%'', ''src/c.c |10%''] [''src/c.c'', ''src/a.c''])
     = [''H1'', ''H2'', ''H3'', ''src/a.c |90%'', ''src/c.c |10%'']
   \<and> detailText (fst (filterLines 0 [''H1'', ''H2'', ''H3'', ''src/a.c |90%'', ''src/b.c |50%''] [''lib/x.c''])) = '' n/a''"
  using detail_filter [of "''H1''" "''H2''" "''H3''" "[''src/a.c |90%'', ''src/b.c |50%'', ''src/c.c |10%'']" "[''src/c.c'', ''src/a.c'']"]
        detail_filter [of "''H1''" "''H2''" "''H3''" "[''src/a.c |90%'', ''src/b.c |50%'']" "[''lib/x.c'']"]
  by (simp add: js_startsWith_def)

section \<open>Sequencing and traces\<close>

lemma bindE_Inr: "bindE m f s = (Inr y, s') \<longleftrightarrow> (\<exists>x s1. m s = (Inr x, s1) \<and> f x s1 = (Inr y, s'))"
  by (auto simp: bindE_def split: prod.splits sum.splits)

lemma bindE_Inl:
  "bindE m f s = (Inl e, s') \<longleftrightarrow>
     m s = (Inl e, s') \<or> (\<exists>x s1. m s = (Inr x, s1) \<and> f x s1 = (Inl e, s'))"
  by (auto simp: bindE_def split: prod.splits sum.splits)

lemma emitsD: "emits P m \<Longrightarrow> m s = (r, s') \<Longrightarrow> \<exists>es. trace s' = trace s @ es \<and> list_all P es"
  unfolding emits_def by (metis snd_conv)

lemma emits_ret: "emits P (ret x)"
  by (simp add: emits_def ret_def)

lemma emits_throw: "emits P (throw msg)"
  by (simp add: emits_def throw_def)

lemma emits_emit: "P e \<Longrightarrow> emits P (emit e)"
  by (simp add: emits_def emit_def)

lemma emits_emit_all: "list_all P es \<Longrightarrow> emits P (emit_all es)"
  by (simp add: emits_def emit_all_def)

lemma emits_call: "P e \<Longrightarrow> emits P (call w e x)"
  by (simp add: emits_def call_def split: option.splits)

lemma emits_bindE:
  assumes "emits P m" and "\<And>x. emits P (f x)"
  shows "emits P (bindE m f)"
  unfolding emits_def
proof
  fix s
  obtain r s1 where m: "m s = (r, s1)" by (cases "m s")
  from emitsD [OF assms(1) m] obtain es where es: "trace s1 = trace s @ es" "list_all P es"
    by blast
  show "\<exists>es. trace (snd (bindE m f s)) = trace s @ es \<and> list_all P es"
  proof (cases r)
    case (Inl e)
    then show ?thesis using m es by (auto simp: bindE_def)
  next
    case (Inr x)
    obtain r2 s2 where f: "f x s1 = (r2, s2)" by (cases "f x s1")
    from emitsD [OF assms(2) f] obtain es2 where "trace s2 = trace s1 @ es2" "list_all P es2"
      by blast
    then show ?thesis using Inr m f es by (auto simp: bindE_def)
  qed
qed

lemma emits_host_createComment: "emits P (host_createComment body)"
  by (simp add: emits_def host_createComment_def)

lemma emits_host_updateComment: "emits P (host_updateComment cid body)"
  by (simp add: emits_def host_updateComment_def)

lemma emits_listComments: "P (ListComments n) \<Longrightarrow> emits P (listComments w n)"
  by (simp add: emits_def listComments_def call_def split: option.splits)

lemmas emits_intros =
  emits_ret emits_throw emits_emit emits_emit_all emits_call emits_bindE
  emits_host_createComment emits_host_updateComment emits_listComments

lemma emits_logging:
  "P (Info msg) \<Longrightarrow> emits P (info msg)"
  "P (Warning msg) \<Longrightarrow> emits P (warning msg)"
  "P (Debug msg) \<Longrightarrow> emits P (debug msg)"
  by (simp_all add: info_def warning_def debug_def emits_emit)

lemma emits_the_pull_request: "emits P (the_pull_request w field)"
  by (auto simp: the_pull_request_def intro: emits_intros split: option.splits)

lemma quiet_simps [simp]:
  "quiet (Info a)" "quiet (Warning a)" "quiet (Debug a)" "quiet (ConsoleLog a)"
  "\<not> quiet (SetOutput n v)" "\<not> quiet (SetFailed a)" "quiet (Glob a)" "quiet (Exec t as c)"
  "quiet (LcovTotal f)" "quiet (GetOctokit a)" "quiet (ListComments i)" "quiet (CreateComment i a)"
  "quiet (UpdateComment i a)" "quiet (ListFiles i)" "quiet (ListWorkflowRunsForRepo a i)"
  "quiet (GetArtifact a i)" "quiet (DownloadArtifact i j a)" "quiet (UploadArtifact a fs b)"
  "quiet (Readdir a)"
  by (simp_all add: quiet_def)

lemma lineMatches_printed: "list_all quiet (snd (lineMatches line changedFiles))"
  by (induction changedFiles) (auto split: prod.splits)

lemma filterLines_printed: "list_all quiet (snd (filterLines index lines changedFiles))"
proof (induction lines arbitrary: index)
  case Nil
  then show ?case by simp
next
  case (Cons line lines)
  show ?case
    using Cons [of "Suc index"] lineMatches_printed [of line changedFiles]
    by (auto split: prod.splits)
qed

lemma quiet_summarize: "emits quiet (summarize w f)"
  unfolding summarize_def exec_def Let_def
  by (intro emits_intros) simp

lemma quiet_detail: "emits quiet (detail w f)"
  unfolding detail_def exec_def Let_def listFiles_def
proof (intro emits_intros emits_the_pull_request)
  fix out pr changedFiles
  show "emits quiet (case filterLines 0 (butlast (butlast (tl (split_lines (js_trim out))))) changedFiles of
      (lines, printed) \<Rightarrow> bindE (emit_all printed) (\<lambda>_. ret (detailText lines)))"
    using filterLines_printed [of 0 "butlast (butlast (tl (split_lines (js_trim out))))" changedFiles]
    by (auto split: prod.splits intro!: emits_intros)
qed simp_all

lemma quiet_createComment: "emits quiet (createComment w body)"
  unfolding createComment_def
  by (intro emits_intros emits_logging emits_the_pull_request) simp_all

lemma quiet_upsertComment: "emits quiet (upsertComment w body h)"
  unfolding upsertComment_def
  by (auto intro!: emits_intros emits_logging emits_the_pull_request quiet_createComment split: option.splits)

lemma quiet_downloadSingleFileArtifact: "emits quiet (downloadSingleFileArtifact w n fb d)"
  unfolding downloadSingleFileArtifact_def getArtifact_def downloadArtifact_def readdirSync_def
  by (auto intro!: emits_intros emits_logging split: option.splits)

lemma quiet_downloadTargetBranchCoverage: "emits quiet (downloadTargetBranchCoverage w n t p)"
  unfolding downloadTargetBranchCoverage_def getArtifact_def listWorkflowRunsForRepo_def Let_def
  by (auto intro!: emits_intros emits_logging quiet_downloadSingleFileArtifact split: option.splits list.splits)

lemma quiet_lcovTotal: "emits quiet (lcovTotal w f)"
  unfolding lcovTotal_def
  by (auto intro!: emits_intros split: option.splits)

lemma quiet_calculatePreviousCoverage: "emits quiet (calculatePreviousCoverage w n t p)"
  unfolding emits_def
proof
  fix s
  obtain r s1 where d: "downloadTargetBranchCoverage w n t p s = (r, s1)"
    by (cases "downloadTargetBranchCoverage w n t p s")
  from emitsD [OF quiet_downloadTargetBranchCoverage d]
  obtain es where es: "trace s1 = trace s @ es" "list_all quiet es" by blast
  have k: "\<And>m::previous option io. emits quiet m \<Longrightarrow> \<exists>es. trace (snd (m s1)) = trace s @ es \<and> list_all quiet es"
  proof -
    fix m :: "previous option io"
    assume "emits quiet m"
    then obtain es2 where "trace (snd (m s1)) = trace s1 @ es2" "list_all quiet es2"
      unfolding emits_def by blast
    then show "\<exists>es. trace (snd (m s1)) = trace s @ es \<and> list_all quiet es"
      using es by auto
  qed
  show "\<exists>es. trace (snd (calculatePreviousCoverage w n t p s)) = trace s @ es \<and> list_all quiet es"
  proof (cases r)
    case (Inl e)
    then show ?thesis
      using d k [of "bindE (warning (''Error loading previous coverage: '' @ e)) (\<lambda>_. ret None)"]
      by (simp add: calculatePreviousCoverage_def emits_intros emits_logging)
  next
    case (Inr c)
    then show ?thesis
      using d k [of "ret None"]
        k [of "bindE (lcovTotal w (b_path (the c))) (\<lambda>total.
               ret (Some \<lparr>p_coverage = total, p_path = b_path (the c), p_runId = b_runId (the c),
                          p_targetBranchSha = b_targetBranchSha (the c)\<rparr>))"]
      by (cases c) (simp_all add: calculatePreviousCoverage_def emits_intros quiet_lcovTotal)
  qed
qed

lemma quiet_genhtml: "emits quiet (genhtml w fs p)"
  unfolding genhtml_def exec_def glob_def uploadArtifact_def Let_def
  by (auto intro!: emits_intros emits_logging)

lemma quiet_mergeCoverages: "emits quiet (mergeCoverages w fs p)"
  unfolding mergeCoverages_def exec_def Let_def
  by (auto intro!: emits_intros emits_logging)

lemma quiet_reportComment: "emits quiet (reportComment w cf t an tok tp ti am u r e)"
  unfolding reportComment_def Let_def
  by (auto intro!: emits_intros quiet_summarize quiet_detail quiet_calculatePreviousCoverage
        emits_the_pull_request quiet_upsertComment quiet_createComment)

lemma quiet_run_steps: "emits quiet (run_steps w)"
  unfolding run_steps_def Let_def glob_def getOctokit_def uploadArtifact_def
  by (auto intro!: emits_intros emits_logging quiet_genhtml quiet_mergeCoverages quiet_lcovTotal
        quiet_reportComment)


lemma emits_weaken: "emits P m \<Longrightarrow> (\<And>e. P e \<Longrightarrow> Q e) \<Longrightarrow> emits Q m"
  unfolding emits_def by (metis (mono_tags, lifting) list.pred_mono_strong)

lemma attempts_call: "P e \<Longrightarrow> attempts P (call w e x)"
  by (auto simp: attempts_def call_def split: option.splits)

lemma attempts_bindE1:
  assumes "attempts P m" and "\<And>x. emits Q (f x)"
  shows "attempts P (bindE m f)"
  unfolding attempts_def
proof (intro allI impI)
  fix s y s'
  assume "bindE m f s = (Inr y, s')"
  then obtain x s1 where m: "m s = (Inr x, s1)" and f: "f x s1 = (Inr y, s')"
    by (auto simp: bindE_Inr)
  from assms(1) m obtain es where "trace s1 = trace s @ es" "list_ex P es"
    unfolding attempts_def by blast
  moreover from emitsD [OF assms(2) f] obtain es2 where "trace s' = trace s1 @ es2"
    by blast
  ultimately show "\<exists>es. trace s' = trace s @ es \<and> list_ex P es"
    by (auto simp: list_ex_iff)
qed

lemma attempts_bindE2:
  assumes "emits Q m" and "\<And>x. attempts P (f x)"
  shows "attempts P (bindE m f)"
  unfolding attempts_def
proof (intro allI impI)
  fix s y s'
  assume "bindE m f s = (Inr y, s')"
  then obtain x s1 where m: "m s = (Inr x, s1)" and f: "f x s1 = (Inr y, s')"
    by (auto simp: bindE_Inr)
  from emitsD [OF assms(1) m] obtain es where "trace s1 = trace s @ es"
    by blast
  moreover from assms(2) f obtain es2 where "trace s' = trace s1 @ es2" "list_ex P es2"
    unfolding attempts_def by blast
  ultimately show "\<exists>es. trace s' = trace s @ es \<and> list_ex P es"
    by (auto simp: list_ex_iff)
qed

lemma publish_createComment: "attempts is_publish (createComment w body)"
  unfolding createComment_def
  apply (rule attempts_bindE2 [where Q = quiet])
   apply (simp add: emits_logging)
  apply (rule attempts_bindE2 [OF emits_the_pull_request])
  apply (rule attempts_bindE1 [where Q = quiet])
   apply (rule attempts_call)
   apply (simp add: is_publish_def)
  apply (rule emits_host_createComment)
  done

lemma publish_upsertComment: "attempts is_publish (upsertComment w body h)"
  unfolding upsertComment_def
  apply (rule attempts_bindE2 [OF emits_the_pull_request])
  apply (rule attempts_bindE2 [where Q = quiet])
   apply (simp add: emits_listComments)
  apply (simp split: option.split)
  apply (intro conjI allI impI)
   apply (rule attempts_bindE2 [where Q = quiet])
    apply (simp add: emits_logging)
   apply (rule publish_createComment)
  apply (rule attempts_bindE2 [where Q = quiet])
   apply (simp add: emits_logging)
  apply (rule attempts_bindE1 [where Q = quiet])
   apply (rule attempts_call)
   apply (simp add: is_publish_def)
  apply (rule emits_host_updateComment)
  done

lemma publish_reportComment: "attempts is_publish (reportComment w cf t an tok tp ti am u r e)"
  unfolding reportComment_def Let_def
  apply (rule attempts_bindE2 [OF quiet_summarize])
  apply (rule attempts_bindE2 [OF quiet_detail])
  apply (rule attempts_bindE2 [OF quiet_calculatePreviousCoverage])
  apply (rule attempts_bindE2 [OF emits_the_pull_request])
  apply (simp add: publish_upsertComment publish_createComment)
  done

lemma quiet_glob: "emits quiet (glob w p)"
  by (simp add: glob_def emits_call)

lemma quiet_getOctokit: "emits quiet (getOctokit w t)"
  by (auto simp: getOctokit_def intro!: emits_intros)

lemma publish_run_steps:
  assumes "hasGithubToken w" and "isPR w"
  shows "attempts is_publish (run_steps w)"
  unfolding run_steps_def Let_def
  apply (rule attempts_bindE2 [OF quiet_glob])
  apply (rule attempts_bindE2 [OF quiet_genhtml])
  apply (rule attempts_bindE2 [OF quiet_mergeCoverages])
  apply (rule attempts_bindE2 [OF quiet_lcovTotal])
  apply (rule attempts_bindE2 [OF quiet_getOctokit])
  apply (rule attempts_bindE1 [where Q = quiet])
  using assms apply (simp add: hasGithubToken_def isPR_def publish_reportComment)
  apply (auto intro!: emits_intros emits_logging simp: uploadArtifact_def)
  done

lemma run_steps_Inr:
  assumes "run_steps w s = (Inr x, s1)"
  shows "x = (aggregate w, gateMessage w, js_ge (aggregate w) (minimum w))"
  using assms unfolding run_steps_def Let_def
  by (auto simp: Let_def bindE_Inr mergeCoverages_def lcovTotal_def exec_def call_def ret_def
        aggregate_def gateMessage_def minimum_def mergedCoverageFile_def tmpPath_def
      split: option.splits)

lemma run_steps_upload:
  assumes "run_steps w s = (Inr x, s1)" and "hasGithubToken w"
    and "getInput w ''coverage-artifact-name'' \<noteq> []"
  shows "trace s1 \<noteq> [] \<and> last (trace s1) = coverageUpload w"
  using assms unfolding run_steps_def Let_def
  by (auto simp: Let_def bindE_Inr mergeCoverages_def lcovTotal_def exec_def call_def ret_def
        uploadArtifact_def hasGithubToken_def coverageUpload_def mergedCoverageFile_def tmpPath_def
      split: option.splits)

lemma run_after_steps:
  assumes "run_steps w s = (Inr x, s1)"
  shows "trace (run w s) = trace s1 @ SetOutput ''total-coverage'' (aggregate w)
           # (if js_ge (aggregate w) (minimum w) then [] else [SetFailed (gateMessage w)])"
  using assms run_steps_Inr [OF assms]
  by (simp add: run_def run_try_def bindE_def setOutput_def setFailed_def emit_def throw_def ret_def)

lemma run_steps_raised:
  assumes "run_steps w s = (Inl e, s1)"
  shows "trace (run w s) = trace s1 @ [SetFailed e]"
  using assms
  by (simp add: run_def run_try_def bindE_def setFailed_def emit_def)

lemma run_steps_quiet:
  assumes "run_steps w (start cs) = (r, s1)"
  shows "list_all quiet (trace s1)"
  using emitsD [OF quiet_run_steps assms] by (simp add: start_def)

lemma js_lt_not_ge: "js_lt a b \<Longrightarrow> \<not> js_ge a b"
  by (simp add: js_ge_def)

lemma fresh_id_greater: "c \<in> set cs \<Longrightarrow> c_id c < fresh_id cs"
proof -
  assume "c \<in> set cs"
  then have "c_id c \<in> set (0 # map c_id cs)" by simp
  then have "c_id c \<le> Max (set (0 # map c_id cs))" by (intro Max_ge) simp_all
  also have "Max (set (0 # map c_id cs)) = fold max (map c_id cs) 0"
    by (rule Max.set_eq_fold)
  finally show ?thesis by (simp add: fresh_id_def)
qed

lemma find_unmarked: "\<forall>c\<in>set cs. \<not> P c \<Longrightarrow> find P (cs @ cs') = find P cs'"
  by (induction cs) simp_all

lemma upsert_twice_single_page:
  assumes nofail: "fails w = (\<lambda>e. None)"
    and pr: "ctx_pull_request (ctx w) = Some pr"
    and fit: "length cs < page_size w"
    and unmarked: "\<forall>c\<in>set cs. \<not> js_includes (c_body c) marker"
    and m1: "js_includes body1 marker"
  shows "comments (snd (upsertComment w body2 marker
            (snd (upsertComment w body1 marker \<lparr>trace = tr, comments = cs\<rparr>))))
         = cs @ [\<lparr>c_id = fresh_id cs, c_body = body2\<rparr>]"
proof -
  have none: "find (\<lambda>c. js_includes (c_body c) marker) cs = None"
    using unmarked by (simp add: find_None_iff)
  have first: "comments (snd (upsertComment w body1 marker \<lparr>trace = tr, comments = cs\<rparr>))
      = cs @ [\<lparr>c_id = fresh_id cs, c_body = body1\<rparr>]"
    using nofail pr fit none
    by (simp add: upsertComment_def createComment_def the_pull_request_def listComments_def
          host_createComment_def call_def debug_def emit_def bindE_def ret_def)
  obtain s1 where s1: "s1 = snd (upsertComment w body1 marker \<lparr>trace = tr, comments = cs\<rparr>)"
    by simp
  have found: "find (\<lambda>c. js_includes (c_body c) marker) (cs @ [\<lparr>c_id = fresh_id cs, c_body = body1\<rparr>])
      = Some \<lparr>c_id = fresh_id cs, c_body = body1\<rparr>"
    using find_unmarked [OF unmarked] m1 by simp
  have keep: "map (\<lambda>c. if c_id c = fresh_id cs then c\<lparr>c_body := body2\<rparr> else c) cs = cs"
    by (intro map_idI) (auto dest: fresh_id_greater)
  have "comments (snd (upsertComment w body2 marker s1)) = cs @ [\<lparr>c_id = fresh_id cs, c_body = body2\<rparr>]"
    using nofail pr fit found keep first [folded s1]
    by (simp add: upsertComment_def the_pull_request_def listComments_def
          host_updateComment_def call_def debug_def emit_def bindE_def ret_def)
  then show ?thesis by (simp add: s1)
qed

lemma locator_ignores_conclusion:
  "downloadTargetBranchCoverage
       (w\<lparr>workflow_runs := map (\<lambda>r. r\<lparr>run_conclusion := c r\<rparr>) (workflow_runs w)\<rparr>) a t p
     = downloadTargetBranchCoverage w a t p"
proof -
  have f: "filter (\<lambda>r. run_head_branch r = b) (map (\<lambda>r. r\<lparr>run_conclusion := c r\<rparr>) rs)
      = map (\<lambda>r. r\<lparr>run_conclusion := c r\<rparr>) (filter (\<lambda>r. run_head_branch r = b) rs)" for b rs
    by (induction rs) simp_all
  show ?thesis
    by (intro ext)
       (simp add: downloadTargetBranchCoverage_def listWorkflowRunsForRepo_def getArtifact_def
          downloadSingleFileArtifact_def downloadArtifact_def readdirSync_def call_def info_def
          warning_def emit_def bindE_def ret_def throw_def Let_def f take_map
        split: option.splits list.splits)
qed

section \<open>The gate and the output\<close>

lemma outcomes_quiet: "list_all quiet es \<Longrightarrow> outcomes es = []"
  by (induction es) (auto simp: outcomes_def)

lemma outcomes_append: "outcomes (es @ es') = outcomes es @ outcomes es'"
  by (simp add: outcomes_def)

lemma attemptsD:
  "attempts P m \<Longrightarrow> m s = (Inr x, s') \<Longrightarrow> \<exists>es. trace s' = trace s @ es \<and> list_ex P es"
  unfolding attempts_def by blast

text \<open>
  Claim C1, as amended. Take a run in which no step before the output throws. Its steps
  leave neither an output nor a failure mark; with a token on a pull-request event they
  have made a comment call, and with a token and a coverage artifact name their last act is
  the upload of the merged trace. After them the output is set. When the aggregate coverage
  is strictly below the minimum the run is then marked failed, last of all, with the
  message that states the aggregate coverage and the minimum; when the aggregate coverage
  is at least the minimum the run ends with the output and is not failed.
\<close>

theorem gate_after_reporting:
  assumes "\<not> isl (fst (run_steps w (start cs)))"
  shows "list_all quiet (trace (snd (run_steps w (start cs))))
    \<and> (hasGithubToken w \<and> isPR w \<longrightarrow> list_ex is_publish (trace (snd (run_steps w (start cs)))))
    \<and> (hasGithubToken w \<and> getInput w ''coverage-artifact-name'' \<noteq> [] \<longrightarrow>
          last (trace (snd (run_steps w (start cs)))) = coverageUpload w)
    \<and> (js_lt (aggregate w) (minimum w) \<longrightarrow>
          trace (run w (start cs)) = trace (snd (run_steps w (start cs)))
            @ [SetOutput ''total-coverage'' (aggregate w), SetFailed (gateMessage w)])
    \<and> (js_ge (aggregate w) (minimum w) \<longrightarrow>
          trace (run w (start cs)) = trace (snd (run_steps w (start cs)))
            @ [SetOutput ''total-coverage'' (aggregate w)])
    \<and> gateMessage w = ''The code coverage is too low: '' @ Number_toString (finite_toString w) (aggregate w)
          @ ''. Expected at least '' @ getInput w ''minimum-coverage'' @ ''.''"
proof -
  obtain r s1 where rs: "run_steps w (start cs) = (r, s1)"
    by (cases "run_steps w (start cs)")
  with assms obtain x where "r = Inr x"
    by (cases r) simp_all
  with rs have steps: "run_steps w (start cs) = (Inr x, s1)"
    by simp
  have "list_all quiet (trace s1)"
    using run_steps_quiet [OF steps] .
  moreover have "list_ex is_publish (trace s1)" if "hasGithubToken w" "isPR w"
    using attemptsD [OF publish_run_steps [OF that] steps] by (auto simp: start_def)
  moreover have "last (trace s1) = coverageUpload w"
    if "hasGithubToken w" "getInput w ''coverage-artifact-name'' \<noteq> []"
    using run_steps_upload [OF steps that] by simp
  moreover have "trace (run w (start cs)) = trace s1
      @ [SetOutput ''total-coverage'' (aggregate w), SetFailed (gateMessage w)]"
    if "js_lt (aggregate w) (minimum w)"
    using run_after_steps [OF steps] js_lt_not_ge [OF that] by simp
  moreover have "trace (run w (start cs)) = trace s1 @ [SetOutput ''total-coverage'' (aggregate w)]"
    if "js_ge (aggregate w) (minimum w)"
    using run_after_steps [OF steps] that by simp
  ultimately show ?thesis
    using steps by (simp add: gateMessage_def errorMessage_def)
qed

text \<open>
  Claim C6, as amended. The output and failure marks of a run are exactly these: when a
  step before the output throws, the failure with the message thrown and no output; otherwise
  the output \<^verbatim>\<open>total-coverage\<close> with the aggregate coverage of the merged trace file,
  followed by the failure of the gate when the minimum is not reached.
\<close>

theorem total_coverage_output:
  "outcomes (trace (run w (start cs))) =
     (case fst (run_steps w (start cs)) of
        Inl e \<Rightarrow> [SetFailed e]
      | Inr _ \<Rightarrow> SetOutput ''total-coverage'' (aggregate w)
                 # (if js_ge (aggregate w) (minimum w) then [] else [SetFailed (gateMessage w)]))"
proof -
  obtain r s1 where steps: "run_steps w (start cs) = (r, s1)"
    by (cases "run_steps w (start cs)")
  have q: "outcomes (trace s1) = []"
    using run_steps_quiet [OF steps] by (rule outcomes_quiet)
  show ?thesis
  proof (cases r)
    case (Inl e)
    then show ?thesis
      using steps q run_steps_raised [of w "start cs" e s1]
      by (simp add: outcomes_append) (simp add: outcomes_def)
  next
    case (Inr x)
    then show ?thesis
      using steps q run_after_steps [of w "start cs" x s1]
      by (simp add: outcomes_append) (simp add: outcomes_def)
  qed
qed

text \<open>
  Claim C10. When the minimum-coverage input coerces to NaN, the comparison of the gate is
  false for every aggregate coverage, and every run ends marked failed; when no step before
  the output throws, it is the gate that fails it.
\<close>

theorem non_numeric_minimum_fails:
  assumes "toNumber w (getInput w ''minimum-coverage'') = NaN"
  shows "\<not> js_ge cov (toNumber w (getInput w ''minimum-coverage''))
    \<and> (\<exists>e. last (trace (run w (start cs))) = SetFailed e)
    \<and> (\<not> isl (fst (run_steps w (start cs))) \<longrightarrow>
          last (trace (run w (start cs))) = SetFailed (gateMessage w))"
proof -
  have nan: "\<not> js_ge cov (minimum w)" for cov
    using assms by (simp add: js_ge_def minimum_def)
  obtain r s1 where steps: "run_steps w (start cs) = (r, s1)"
    by (cases "run_steps w (start cs)")
  show ?thesis
  proof (cases r)
    case (Inl e)
    then show ?thesis
      using steps nan [of cov] run_steps_raised [of w "start cs" e s1]
      by (simp add: minimum_def)
  next
    case (Inr x)
    then show ?thesis
      using steps nan [of cov] nan [of "aggregate w"] run_after_steps [of w "start cs" x s1]
      by (simp add: minimum_def)
  qed
qed

section \<open>Resolver, single-file download and diff line\<close>

text \<open>
  Claim C2. When the baseline lookup throws, the resolver returns null and logs the message
  as a warning; when the lookup finds nothing, the resolver returns null; an exception
  leaves the resolver only after the lookup has returned a baseline; and whenever the lookup
  returns no baseline, whatever follows the resolver in the run goes on with null.
\<close>

theorem baseline_lookup_errors_caught:
  "(\<forall>e. fst (downloadTargetBranchCoverage w a t p s) = Inl e \<longrightarrow>
       calculatePreviousCoverage w a t p s
         = (Inr None, (snd (downloadTargetBranchCoverage w a t p s))
              \<lparr>trace := trace (snd (downloadTargetBranchCoverage w a t p s))
                 @ [Warning (''Error loading previous coverage: '' @ e)]\<rparr>))
   \<and> (fst (downloadTargetBranchCoverage w a t p s) = Inr None \<longrightarrow>
       calculatePreviousCoverage w a t p s = (Inr None, snd (downloadTargetBranchCoverage w a t p s)))
   \<and> (isl (fst (calculatePreviousCoverage w a t p s)) \<longrightarrow>
       lookupFound (fst (downloadTargetBranchCoverage w a t p s)))
   \<and> (\<not> lookupFound (fst (downloadTargetBranchCoverage w a t p s)) \<longrightarrow>
       bindE (calculatePreviousCoverage w a t p) k s
         = k None (snd (calculatePreviousCoverage w a t p s)))"
proof -
  obtain r s1 where d: "downloadTargetBranchCoverage w a t p s = (r, s1)"
    by (cases "downloadTargetBranchCoverage w a t p s")
  show ?thesis
  proof (cases r)
    case (Inl e)
    then show ?thesis
      using d
      by (simp add: calculatePreviousCoverage_def lookupFound_def bindE_def warning_def emit_def ret_def)
  next
    case (Inr c)
    then show ?thesis
      using d
      by (cases c)
         (simp_all add: calculatePreviousCoverage_def lookupFound_def bindE_def ret_def)
  qed
qed

text \<open>
  Claim C7. Once the artifact is found and downloaded and the directory is read, the download
  throws exactly when the directory does not hold exactly one file; with one file it returns
  the path joined from the directory and that file.
\<close>

theorem single_file_artifact:
  assumes "fails w (GetArtifact name (fb_workflowRunId fb)) = None"
    and "artifact_of w name (fb_workflowRunId fb) = Some artifactId"
    and "fails w (DownloadArtifact artifactId (fb_workflowRunId fb) dir) = None"
    and "fails w (Readdir dir) = None"
  shows "fst (downloadSingleFileArtifact w name fb dir s) =
           (case dir_files w dir of
              [file] \<Rightarrow> Inr (Some (path_join w dir file))
            | files \<Rightarrow> Inl (''Expected a single file, but found '' @ show_nat (length files)
                            @ '' files in '' @ dir @ ''.''))
       \<and> isl (fst (downloadSingleFileArtifact w name fb dir s)) = (length (dir_files w dir) \<noteq> 1)"
  using assms
  by (cases "dir_files w dir"; cases "tl (dir_files w dir)")
     (simp_all add: downloadSingleFileArtifact_def getArtifact_def downloadArtifact_def readdirSync_def
        bindE_def call_def info_def emit_def throw_def ret_def)



lemma show_nat_eval:
  "n < 10 \<Longrightarrow> show_nat n = [digit_char n]"
  "10 \<le> n \<Longrightarrow> show_nat n = show_nat (n div 10) @ [digit_char (n mod 10)]"
  by (simp_all add: show_nat.simps)







section \<open>Runs without a token\<close>





lemma tokenless_simps [simp]:
  "tokenless w (Info a)" "tokenless w (Warning a)" "tokenless w (Debug a)" "tokenless w (ConsoleLog a)"
  "tokenless w (SetOutput n v)" "tokenless w (SetFailed a)" "tokenless w (Glob a)"
  "tokenless w (Exec t as c)" "tokenless w (LcovTotal f)" "tokenless w (GetOctokit a)"
  "tokenless w (UploadArtifact name files dir) = (UploadArtifact name files dir = htmlReportUpload w)"
  by (simp_all add: tokenless_def)





text \<open>
  The client refuses an empty token, and \<^verbatim>\<open>run\<close> makes the client before it looks at the
  token: the steps of a run return only with a token, so lines 63 to 65 are never reached.
\<close>

lemma steps_return_with_token:
  assumes "run_steps w s = (Inr x, s1)"
  shows "hasGithubToken w"
  using assms unfolding run_steps_def Let_def
  by (auto simp: bindE_Inr getOctokit_def hasGithubToken_def emit_def throw_def split: if_splits)


section \<open>The example runs\<close>

lemmas prim_app = ret_def throw_def bindE_def emit_def emit_all_def call_def info_def warning_def
  debug_def setOutput_def setFailed_def getInput_def host_createComment_def host_updateComment_def
  listComments_def calculatePreviousCoverage_def
  glob_def [THEN fun_cong] exec_def [THEN fun_cong] lcovTotal_def [THEN fun_cong]
  uploadArtifact_def [THEN fun_cong] the_pull_request_def [THEN fun_cong] listFiles_def [THEN fun_cong]
  listWorkflowRunsForRepo_def [THEN fun_cong] getArtifact_def [THEN fun_cong]
  downloadArtifact_def [THEN fun_cong] readdirSync_def [THEN fun_cong] getOctokit_def [THEN fun_cong]

lemmas step_app = summarize_def [THEN fun_cong] detail_def [THEN fun_cong]
  createComment_def [THEN fun_cong] upsertComment_def [THEN fun_cong]
  downloadSingleFileArtifact_def [THEN fun_cong] downloadTargetBranchCoverage_def [THEN fun_cong]
  genhtml_def [THEN fun_cong] mergeCoverages_def [THEN fun_cong] reportComment_def [THEN fun_cong]
  run_steps_def [THEN fun_cong] run_try_def [THEN fun_cong] run_def

lemmas pure_defs = Let_def events_def errorMessage_def Number_toString_def js_ge_def js_gt_def
  js_trim_def js_whitespace_def show_nat_eval digit_char_def detailText_def js_startsWith_def
  commentHeaderPrefix_def commentBody_def diffMessage_def toFixed2_def fresh_id_def

lemmas world_defs = push_world_def passing_world_def upload_fails_world_def genhtml_fails_world_def
  nan_world_def tokenless_world_def listing_fails_world_def no_runs_world_def two_files_world_def
  failed_run_world_def octokit_fails_world_def with_input_def example_ctx_def example_inputs_def
  example_exec_output_def example_toNumber_def example_findBy_def start_def

lemmas eval = prim_app step_app pure_defs world_defs

lemma example_world_simps [simp]:
  "inputs example_world = example_inputs"
  "ctx example_world = example_ctx"
  "tmpdir example_world = ''/tmp''"
  "path_resolve example_world = (\<lambda>a b. a @ ''/'' @ b)"
  "path_join example_world = (\<lambda>a b. a @ ''/'' @ b)"
  "path_dirname example_world = (\<lambda>p. ''/tmp/report-lcov'')"
  "toNumber example_world = example_toNumber"
  "float_round example_world = Num"
  "finite_toString example_world = (\<lambda>r. ''85'')"
  "fails example_world = (\<lambda>e. None)"
  "glob_result example_world = (\<lambda>pattern. if pattern = ''coverage/*.info'' then [''coverage/unit.info'']
                                  else [''/tmp/report-lcov/html/index.html''])"
  "exec_output example_world = example_exec_output"
  "lcov_total example_world = (\<lambda>file. if file = ''/tmp/report-lcov/lcov.info'' then Num 85 else Num 80)"
  "changed_files example_world = (\<lambda>n. [''src/b.c''])"
  "workflow_runs example_world = [\<lparr>run_id = 41, run_head_branch = ''main'', run_head_sha = ''fedcba9876543210'',
                        run_conclusion = ''success''\<rparr>]"
  "artifact_of example_world = (\<lambda>name r. Some 9)"
  "dir_files example_world = (\<lambda>dir. [''lcov.info''])"
  "page_size example_world = 30"
  by (simp_all add: example_world_def)

lemma example_steps:
  "run_steps example_world (start []) =
     (Inr (Num 85, ''The code coverage is too low: 85. Expected at least 90.'', False),
      \<lparr>trace = example_steps_trace, comments = [\<lparr>c_id = 1, c_body = example_body\<rparr>]\<rparr>)"
  by (simp add: eval example_steps_trace_def example_body_def)

lemma push_steps:
  "run_steps push_world (start []) =
     (Inr (Num 85, ''The code coverage is too low: 85. Expected at least 90.'', False),
      \<lparr>trace = push_steps_trace, comments = []\<rparr>)"
  by (simp add: eval push_steps_trace_def)

lemma passing_steps:
  "run_steps passing_world (start []) =
     (Inr (Num 85, ''The code coverage is too low: 85. Expected at least 80.'', True),
      \<lparr>trace = push_steps_trace, comments = []\<rparr>)"
  by (simp add: eval push_steps_trace_def)

lemma nan_steps:
  "run_steps nan_world (start []) =
     (Inr (Num 85, ''The code coverage is too low: 85. Expected at least ninety.'', False),
      \<lparr>trace = push_steps_trace, comments = []\<rparr>)"
  by (simp add: eval push_steps_trace_def)

lemma listing_fails_run:
  "last (trace (run listing_fails_world (start []))) = SetOutput ''total-coverage'' (Num 85)"
  by (simp add: eval)

text \<open>
  The example run, 85 against a minimum of 90 on a pull request: comment, upload, output,
  then the failure with both numbers. With a minimum of 80 the run ends with the output.
\<close>

theorem gate_after_reporting_witness:
  "trace (run example_world (start [])) = example_steps_trace
       @ [SetOutput ''total-coverage'' (Num 85),
          SetFailed ''The code coverage is too low: 85. Expected at least 90.'']
   \<and> list_ex is_publish example_steps_trace
   \<and> last example_steps_trace
       = UploadArtifact ''coverage'' [''/tmp/report-lcov/lcov.info''] ''/tmp/report-lcov''
   \<and> trace (run passing_world (start [])) = push_steps_trace @ [SetOutput ''total-coverage'' (Num 85)]"
proof -
  have a: "\<not> isl (fst (run_steps example_world (start [])))"
    by (simp add: example_steps)
  have b: "\<not> isl (fst (run_steps passing_world (start [])))"
    by (simp add: passing_steps)
  have c: "hasGithubToken example_world" "isPR example_world"
    "getInput example_world ''coverage-artifact-name'' \<noteq> []"
    "js_lt (aggregate example_world) (minimum example_world)"
    "js_ge (aggregate passing_world) (minimum passing_world)"
    "aggregate example_world = Num 85" "aggregate passing_world = Num 85"
    "gateMessage example_world = ''The code coverage is too low: 85. Expected at least 90.''"
    "coverageUpload example_world
       = UploadArtifact ''coverage'' [''/tmp/report-lcov/lcov.info''] ''/tmp/report-lcov''"
    by (simp_all add: hasGithubToken_def isPR_def aggregate_def minimum_def gateMessage_def
          coverageUpload_def mergedCoverageFile_def tmpPath_def getInput_def pure_defs world_defs)
  show ?thesis
    using gate_after_reporting [OF a] gate_after_reporting [OF b] c
    by (simp add: example_steps passing_steps)
qed

text \<open>
  Claim C1 as stated fails when a step throws. Coverage is 85, the minimum 90, and the upload
  of the merged trace throws: the run is failed with the message of the upload, which states
  neither number, and the output is never set.
\<close>

theorem gate_message_counterexample:
  "js_lt (aggregate upload_fails_world) (minimum upload_fails_world)
   \<and> trace (run upload_fails_world (start [])) =
       push_steps_trace @ [SetFailed ''Failed to CreateArtifact: ECONNRESET'']
   \<and> gateMessage upload_fails_world = ''The code coverage is too low: 85. Expected at least 90.''"
  by (simp add: eval push_steps_trace_def aggregate_def minimum_def gateMessage_def
        mergedCoverageFile_def tmpPath_def)

text \<open>The output is set on a run that fails the gate and on a run that passes it.\<close>

theorem total_coverage_output_witness:
  "outcomes (trace (run push_world (start []))) =
     [SetOutput ''total-coverage'' (Num 85),
      SetFailed ''The code coverage is too low: 85. Expected at least 90.'']
   \<and> outcomes (trace (run passing_world (start []))) = [SetOutput ''total-coverage'' (Num 85)]"
proof -
  have "aggregate push_world = Num 85" "aggregate passing_world = Num 85"
    "\<not> js_ge (aggregate push_world) (minimum push_world)"
    "js_ge (aggregate passing_world) (minimum passing_world)"
    "gateMessage push_world = ''The code coverage is too low: 85. Expected at least 90.''"
    by (simp_all add: aggregate_def minimum_def gateMessage_def mergedCoverageFile_def tmpPath_def
          getInput_def pure_defs world_defs)
  then show ?thesis
    using total_coverage_output [of push_world "[]"] total_coverage_output [of passing_world "[]"]
    by (simp add: push_steps passing_steps)
qed

text \<open>
  Claim C6 as stated fails on a tool failure and on any exception before the output: when
  \<^verbatim>\<open>genhtml\<close> exits with an error, and when the client for the host cannot be made after
  the coverage has been computed, the run ends failed and no output is set.
\<close>

theorem output_not_set_counterexample:
  "trace (run genhtml_fails_world (start [])) =
     [Glob ''coverage/*.info'',
      Exec ''genhtml'' [''coverage/unit.info'', ''--rc'', ''lcov_branch_coverage=1'', ''--output-directory'',
        ''/tmp/report-lcov/html''] (Some ''./''),
      SetFailed ''The process /usr/bin/genhtml failed with exit code 1'']
   \<and> trace (run octokit_fails_world (start [])) =
     [Glob ''coverage/*.info'',
      Exec ''genhtml'' [''coverage/unit.info'', ''--rc'', ''lcov_branch_coverage=1'', ''--output-directory'',
        ''/tmp/report-lcov/html''] (Some ''./''),
      Info ''Skip uploading artifacts'',
      Exec ''lcov'' [''--add-tracefile'', ''coverage/unit.info'', ''--output-file'',
        ''/tmp/report-lcov/lcov.info'', ''--rc'', ''lcov_branch_coverage=1''] None,
      LcovTotal (Some ''/tmp/report-lcov/lcov.info''),
      GetOctokit [],
      SetFailed ''Parameter token or opts.auth is required'']
   \<and> aggregate octokit_fails_world = Num 85"
  by (simp add: eval aggregate_def mergedCoverageFile_def tmpPath_def)

text \<open>A minimum of \<^verbatim>\<open>ninety\<close>: even a coverage of 100 does not reach it, and the run fails.\<close>

theorem non_numeric_minimum_fails_witness:
  "\<not> js_ge (Num 100) (toNumber nan_world (getInput nan_world ''minimum-coverage''))
   \<and> last (trace (run nan_world (start []))) =
       SetFailed ''The code coverage is too low: 85. Expected at least ninety.''"
proof -
  have h: "toNumber nan_world (getInput nan_world ''minimum-coverage'') = NaN"
    by (simp add: getInput_def world_defs)
  have ok: "\<not> isl (fst (run_steps nan_world (start [])))"
    by (simp add: nan_steps)
  have g: "gateMessage nan_world = ''The code coverage is too low: 85. Expected at least ninety.''"
    by (simp add: aggregate_def gateMessage_def mergedCoverageFile_def tmpPath_def
          getInput_def pure_defs world_defs)
  show ?thesis
    using non_numeric_minimum_fails [OF h, of "Num 100" "[]"] ok g by simp
qed

text \<open>
  A listing that throws and a branch without runs both resolve to null, and the run whose
  listing throws passes its gate.
\<close>

theorem baseline_lookup_errors_caught_witness:
  \<open>calculatePreviousCoverage listing_fails_world ''coverage'' ''ghs_token'' ''/tmp/report-lcov'' (start [])
     = (Inr None,
        \<lparr>trace = [Info ''Searching for a successful workflow run on target branch: main'',
                  ListWorkflowRunsForRepo ''main'' 1,
                  Warning ''Error loading previous coverage: Bad credentials''],
         comments = []\<rparr>)
   \<and> calculatePreviousCoverage no_runs_world ''coverage'' ''ghs_token'' ''/tmp/report-lcov'' (start [])
     = (Inr None,
        \<lparr>trace = [Info ''Searching for a successful workflow run on target branch: main'',
                  ListWorkflowRunsForRepo ''main'' 1,
                  Warning ''No successful workflow runs found on branch "main".''],
         comments = []\<rparr>)
   \<and> last (trace (run listing_fails_world (start []))) = SetOutput ''total-coverage'' (Num 85)\<close>
proof -
  have a: \<open>downloadTargetBranchCoverage listing_fails_world ''coverage'' ''ghs_token'' ''/tmp/report-lcov'' (start [])
     = (Inl ''Bad credentials'',
        \<lparr>trace = [Info ''Searching for a successful workflow run on target branch: main'',
                  ListWorkflowRunsForRepo ''main'' 1],
         comments = []\<rparr>)\<close>
    by (simp add: prim_app step_app pure_defs world_defs)
  have b: \<open>downloadTargetBranchCoverage no_runs_world ''coverage'' ''ghs_token'' ''/tmp/report-lcov'' (start [])
     = (Inr None,
        \<lparr>trace = [Info ''Searching for a successful workflow run on target branch: main'',
                  ListWorkflowRunsForRepo ''main'' 1,
                  Warning ''No successful workflow runs found on branch "main".''],
         comments = []\<rparr>)\<close>
    by (simp add: prim_app step_app pure_defs world_defs)
  show ?thesis
    using baseline_lookup_errors_caught
            [of listing_fails_world "''coverage''" "''ghs_token''" "''/tmp/report-lcov''" "start []" ret]
          baseline_lookup_errors_caught
            [of no_runs_world "''coverage''" "''ghs_token''" "''/tmp/report-lcov''" "start []" ret]
    by (simp add: a b listing_fails_run)
qed

text \<open>One file gives its path; two files give the error.\<close>

theorem single_file_artifact_witness:
  "fst (downloadSingleFileArtifact example_world ''coverage'' example_findBy ''/tmp/d'' (start []))
     = Inr (Some ''/tmp/d/lcov.info'')
   \<and> fst (downloadSingleFileArtifact two_files_world ''coverage'' example_findBy ''/tmp/d'' (start []))
     = Inl ''Expected a single file, but found 2 files in /tmp/d.''"
  using single_file_artifact [of example_world "''coverage''" example_findBy 9 "''/tmp/d''" "start []"]
        single_file_artifact [of two_files_world "''coverage''" example_findBy 9 "''/tmp/d''" "start []"]
  by (simp add: two_files_world_def show_nat_eval digit_char_def)




text \<open>
  Claim C3 fails on a long thread. With thirty comments before it, the marked comment of a
  first publish is on the second page; the second publish lists the first page only, finds no
  marked comment and creates a second one.
\<close>

theorem upsert_first_page_only:
  "map c_body (drop 30 (comments (snd (upsertComment example_world second_body (commentHeaderPrefix [])
       (snd (upsertComment example_world first_body (commentHeaderPrefix []) (start thirty_comments)))))))
     = [first_body, second_body]
   \<and> js_includes first_body (commentHeaderPrefix [])
   \<and> js_includes second_body (commentHeaderPrefix [])"
  by (simp add: prim_app step_app pure_defs world_defs thirty_comments_def first_body_def second_body_def)

text \<open>
  Claim C5 fails when the latest run of the target branch did not succeed: the listing is
  not filtered by conclusion, so the baseline comes from the failed run 42, not from the
  successful run 41.
\<close>

theorem locator_takes_failed_run:
  "fst (downloadTargetBranchCoverage failed_run_world ''coverage'' ''ghs_token'' ''/tmp/report-lcov'' (start []))
     = Inr (Some \<lparr>b_path = Some ''/tmp/report-lcov/42-coverage-lcov.info/lcov.info'', b_runId = 42,
                  b_targetBranchSha = ''badc0ffee0ddf00d''\<rparr>)
   \<and> map (\<lambda>r. (run_id r, run_conclusion r)) (workflow_runs failed_run_world)
     = [(42, ''failure''), (41, ''success'')]"
  by (simp add: prim_app step_app pure_defs world_defs)

end
